theory Spec2Isabelle
  imports Main "HOL-Library.AList"
begin

section \<open>JavaScript strings\<close>

text \<open>
  A JavaScript string is modelled as a \<open>string\<close>; a \<open>char\<close> stands for one UTF-16 code
  unit below 256. Truthiness of a string is non-emptiness, of a number is being non-zero.
\<close>

fun startsWith :: "string \<Rightarrow> string \<Rightarrow> bool" where
  "startsWith s [] = True"
| "startsWith [] (p # ps) = False"
| "startsWith (c # cs) (p # ps) = (c = p \<and> startsWith cs ps)"

text \<open>\<open>String.prototype.includes\<close>: the pattern occurs at some position.\<close>

fun includes_str :: "string \<Rightarrow> string \<Rightarrow> bool" where
  "includes_str [] pat = (pat = [])"
| "includes_str (c # cs) pat = (startsWith (c # cs) pat \<or> includes_str cs pat)"

text \<open>\<open>Array.prototype.join\<close> on an array of strings.\<close>

fun join_with :: "string \<Rightarrow> string list \<Rightarrow> string" where
  "join_with sep [] = []"
| "join_with sep [x] = x"
| "join_with sep (x # y # ys) = x @ sep @ join_with sep (y # ys)"

definition digit_char :: "nat \<Rightarrow> char" where
  "digit_char d = char_of (48 + d)"

text \<open>The decimal rendering of a non-negative integer in a template literal.\<close>

function string_of_nat :: "nat \<Rightarrow> string" where
  "string_of_nat n =
     (if n < 10 then [digit_char n] else string_of_nat (n div 10) @ [digit_char (n mod 10)])"
  by pat_completeness auto
termination
  by (relation "measure id") auto

definition newline :: char where
  "newline = CHR 0x0A"

section \<open>The error monitor of the preview (CodePreview.tsx, ErrorMonitor)\<close>

subsection \<open>Sandpack messages\<close>

text \<open>
  The listener reads \<open>message.type\<close> and, per type, a few fields. One constructor per
  shape the listener distinguishes; an absent or falsy string field is the empty string,
  an absent or falsy number is 0.
  \<^item> \<open>Done ce\<close>: type "done"; \<open>ce\<close> is \<open>message.compilatonError === true\<close>.
  \<^item> \<open>ShowError msg title line column path\<close>: type "action", action "show-error".
  \<^item> \<open>Notification nt title\<close>: type "action", action "notification".
  \<^item> \<open>Console cs log\<close>: type "console"; \<open>cs\<close> is \<open>message.codesandbox === true\<close>,
    \<open>log\<close> is \<open>None\<close> when \<open>message.log\<close> is falsy, else the array (a single
    non-array log is the one-element array).
  \<^item> \<open>OtherMessage\<close>: anything else.
  A console log entry is an object with a method name and optional data (elements already
  rendered as strings), or a primitive value.
\<close>

datatype log_entry =
    LogObject (log_method: string) (log_data: "string list option")
  | LogPrimitive

datatype message =
    Done bool
  | ShowError string string nat nat string
  | Notification string string
  | Console bool "log_entry list option"
  | OtherMessage

text \<open>
  Lines 179-228: the error type and error message the listener derives from a message
  (both start as the empty string).
\<close>

definition is_error_log :: "log_entry \<Rightarrow> bool" where
  "is_error_log l =
     (case l of
        LogObject m d \<Rightarrow> m = ''error'' \<or> m = ''warn''
      | LogPrimitive \<Rightarrow> False)"

definition log_text :: "log_entry \<Rightarrow> string" where
  "log_text l =
     (case l of
        LogObject m (Some d) \<Rightarrow> join_with '' '' d
      | LogObject m None \<Rightarrow> []
      | LogPrimitive \<Rightarrow> [])"

fun detect :: "message \<Rightarrow> string \<times> string" where
  "detect (Done ce) =
     (if ce then (''Compilation Failed'', ''Build completed with compilation errors'')
      else ([], []))"
| "detect (ShowError msg title line column path) =
     (''Compilation Error'',
      (if msg \<noteq> [] then msg else if title \<noteq> [] then title else ''Compilation failed'')
      @ (if line \<noteq> 0 then newline # ''Line: '' @ string_of_nat line else [])
      @ (if column \<noteq> 0 then '', Column: '' @ string_of_nat column else [])
      @ (if path \<noteq> [] then newline # ''File: '' @ path else []))"
| "detect (Notification nt title) =
     (if nt = ''error''
      then (''Build Error'', if title \<noteq> [] then title else ''Build notification error'')
      else ([], []))"
| "detect (Console cs lg) =
     (case lg of
        None \<Rightarrow> ([], [])
      | Some logs \<Rightarrow>
          if \<not> cs then ([], [])
          else
            (let errorLogs = filter is_error_log logs in
             if errorLogs = [] then ([], [])
             else
               (let errorMessage = join_with [newline] (map log_text errorLogs) in
                if includes_str errorMessage ''Error'' \<or> includes_str errorMessage ''Syntax''
                   \<or> includes_str errorMessage ''Warning''
                then (''Runtime Error'', errorMessage)
                else (''Runtime Error'', []))))"
| "detect OtherMessage = ([], [])"

text \<open>Line 233: the hash that identifies an error.\<close>

definition errorHash_of :: "string \<Rightarrow> string \<Rightarrow> string" where
  "errorHash_of errorType errorMessage = errorType @ '':'' @ take 100 errorMessage"

subsection \<open>The monitor's state and the listener\<close>

text \<open>
  The four \<open>useState\<close> cells of the component, and the due times of the pending
  \<open>setTimeout\<close> callbacks that reset the cooldown (line 264). Times are milliseconds as
  \<open>Date.now()\<close> returns them.

  The listener is a closure that the effect of lines 160-272 subscribes; the effect runs
  again only when \<open>listen\<close> or \<open>lastErrorHash\<close> changes (line 272). The subscribed
  listener therefore reads the current \<open>lastErrorHash\<close>, but the values of
  \<open>fixedErrors\<close>, \<open>errorCooldown\<close> and \<open>lastSuccessTime\<close> of the render in which
  it was subscribed: the fields \<open>seenFixedErrors\<close>, \<open>seenCooldown\<close> and
  \<open>seenSuccessTime\<close>. A \<open>set...\<close> call writes the cell; an update function
  (\<open>prev => ...\<close>) is applied to the cell.
\<close>

record monitor =
  lastErrorHash :: string
  fixedErrors :: "string set"
  errorCooldown :: bool
  lastSuccessTime :: int
  pendingTimeouts :: "int list"
  seenFixedErrors :: "string set"
  seenCooldown :: bool
  seenSuccessTime :: int

definition initial_monitor :: monitor where
  "initial_monitor =
     \<lparr>lastErrorHash = [], fixedErrors = {}, errorCooldown = False, lastSuccessTime = 0,
      pendingTimeouts = [], seenFixedErrors = {}, seenCooldown = False,
      seenSuccessTime = 0\<rparr>"

text \<open>The effect runs again: the listener subscribed from now on closes over the cells.\<close>

definition resubscribe :: "monitor \<Rightarrow> monitor" where
  "resubscribe s =
     s\<lparr>seenFixedErrors := fixedErrors s, seenCooldown := errorCooldown s,
       seenSuccessTime := lastSuccessTime s\<rparr>"

datatype suppress_reason = Cooldown | AlreadyFixed | SameAsLast | PostSuccessTransient

text \<open>
  What the listener did with a message: reset the tracking after a successful build,
  found no error in it, skipped the error, or called \<open>handleSandboxError(error, errorHash)\<close>.
\<close>

datatype reaction =
    BuildSucceeded
  | NoError
  | Suppressed suppress_reason
  | Accepted string string

text \<open>
  The listener, with the render that follows it. Accepting an error changes
  \<open>lastErrorHash\<close>, so the effect runs again. \<open>listen\<close> comes from the Sandpack
  provider, which is not part of the repository: the provider renders on a successful
  "done" message and hands the effect a new \<open>listen\<close>, so the effect runs again after
  the success path too; any other render of the provider is an event of its own
  (\<open>provider_render\<close> below).
\<close>

definition listener :: "monitor \<Rightarrow> int \<Rightarrow> message \<Rightarrow> monitor \<times> reaction" where
  "listener s now msg =
     (if msg = Done False
      then (resubscribe
              (s\<lparr>lastSuccessTime := now, fixedErrors := {}, errorCooldown := False\<rparr>),
            BuildSucceeded)
      else
        (let errorType = fst (detect msg); errorMessage = snd (detect msg) in
         if errorMessage = [] then (s, NoError)
         else
           (let errorHash = errorHash_of errorType errorMessage in
            if seenCooldown s then (s, Suppressed Cooldown)
            else if errorHash \<in> seenFixedErrors s then (s, Suppressed AlreadyFixed)
            else if errorHash \<noteq> lastErrorHash s then
              (if now - seenSuccessTime s < 2000 then (s, Suppressed PostSuccessTransient)
               else
                 (resubscribe
                    (s\<lparr>lastErrorHash := errorHash,
                       fixedErrors := insert errorHash (fixedErrors s),
                       errorCooldown := True,
                       pendingTimeouts := pendingTimeouts s @ [now + 5000]\<rparr>),
                  Accepted (errorType @ '': '' @ errorMessage) errorHash))
            else (s, Suppressed SameAsLast))))"

text \<open>
  The timeout callbacks that are due run before a message that arrives at \<open>now\<close>: each
  sets the cell \<open>errorCooldown\<close> to false. The effect does not run again, so the
  subscribed listener does not see the write.
\<close>

definition fire_timeouts :: "int \<Rightarrow> monitor \<Rightarrow> monitor" where
  "fire_timeouts now s =
     (if list_ex (\<lambda>t. t \<le> now) (pendingTimeouts s)
      then s\<lparr>errorCooldown := False,
             pendingTimeouts := filter (\<lambda>t. \<not> t \<le> now) (pendingTimeouts s)\<rparr>
      else s)"

definition deliver :: "monitor \<Rightarrow> int \<Rightarrow> message \<Rightarrow> monitor \<times> reaction" where
  "deliver s now msg = listener (fire_timeouts now s) now msg"

text \<open>
  A render of the Sandpack provider at \<open>now\<close> for any other reason (the preview
  component renders, the bundler reports a state): the due timeouts have run, and the
  effect runs again with the new \<open>listen\<close>.
\<close>

definition provider_render :: "int \<Rightarrow> monitor \<Rightarrow> monitor" where
  "provider_render now s = resubscribe (fire_timeouts now s)"


text \<open>A fault is a message in which the listener finds an error.\<close>

definition is_fault :: "message \<Rightarrow> bool" where
  "is_fault msg = (msg \<noteq> Done False \<and> snd (detect msg) \<noteq> [])"

definition fingerprint :: "message \<Rightarrow> string" where
  "fingerprint msg = errorHash_of (fst (detect msg)) (snd (detect msg))"

section \<open>The repair session of the preview (CodePreview.tsx, handleSandboxError)\<close>

subsection \<open>Files and patches\<close>

record generated_file =
  path :: string
  content :: string

text \<open>
  The \<open>fixedFiles\<close> object of a fix result: its own string-keyed properties in
  insertion order (what \<open>Object.entries\<close> lists); a property lookup is \<open>map_of\<close>.
\<close>

type_synonym patch = "(string \<times> string) list"

text \<open>
  Lines 350-356. \<open>fixedFiles[file.path] || fixedFiles[`/${file.path}`]\<close> is the first
  operand when it is truthy and the second otherwise; the file is replaced when the
  value is truthy.
\<close>

definition fixedContent :: "patch \<Rightarrow> string \<Rightarrow> string option" where
  "fixedContent fixedFiles p =
     (case map_of fixedFiles p of
        Some c \<Rightarrow> if c \<noteq> [] then Some c else map_of fixedFiles (CHR ''/'' # p)
      | None \<Rightarrow> map_of fixedFiles (CHR ''/'' # p))"

definition updateFile :: "patch \<Rightarrow> generated_file \<Rightarrow> generated_file" where
  "updateFile fixedFiles file =
     (case fixedContent fixedFiles (path file) of
        Some c \<Rightarrow> if c \<noteq> [] then file\<lparr>content := c\<rparr> else file
      | None \<Rightarrow> file)"

text \<open>Line 360: \<open>files.some(f => f.path === path || `/${f.path}` === path)\<close>.\<close>

definition pathExists :: "generated_file list \<Rightarrow> string \<Rightarrow> bool" where
  "pathExists files p = list_ex (\<lambda>f. path f = p \<or> CHR ''/'' # path f = p) files"

text \<open>Lines 350-364: the list handed to \<open>onFilesFixed\<close>.\<close>

definition applyFixedFiles :: "generated_file list \<Rightarrow> patch \<Rightarrow> generated_file list" where
  "applyFixedFiles files fixedFiles =
     map (updateFile fixedFiles) files
     @ map (\<lambda>(p, c). \<lparr>path = p, content = c\<rparr>)
         (filter (\<lambda>(p, c). \<not> pathExists files p) fixedFiles)"

subsection \<open>The analysis record and the events on the wire\<close>

text \<open>
  The root-cause analysis as the pipeline reads and writes it: the string fields of
  \<open>errorAnalysis\<close> and of \<open>confidence.reasoning\<close> (absent fields are empty), and the
  optional \<open>error\<close> field. The numeric confidence is left out: nothing reads it.
\<close>

record analysis =
  an_errorMessage :: string
  an_errorType :: string
  an_fundamentalIssue :: string
  an_symptom :: string
  an_selected :: string
  an_strategyReasoning :: string
  an_confidenceReasoning :: string
  an_error :: "string option"

text \<open>A stage update as \<open>onReasoningUpdate\<close> receives it.\<close>

record reasoning_stage =
  stage :: string
  stage_message :: string
  progress :: nat
  stage_reasoning :: "analysis option"

text \<open>
  The final record of the stream: \<open>success\<close> as a truth value, \<open>fixedFiles\<close>
  (\<open>None\<close> when falsy or absent), \<open>explanation\<close> (empty when falsy or absent).
\<close>

record final_result =
  fr_success :: bool
  fr_fixedFiles :: "patch option"
  fr_explanation :: string

text \<open>
  A parsed \<open>data:\<close> record is dispatched on its \<open>type\<close>: "complete", "error" (with
  its \<open>error\<close> text), or anything else, which is a stage update. A line of the stream
  either does not start with \<open>data: \<close>, or makes \<open>JSON.parse\<close> throw, or parses.
  The splitting of the received text at blank lines is not modelled: a read delivers the
  lines it completes.
\<close>

datatype sse_event =
    CompleteEvent final_result
  | ErrorEvent string
  | ProgressEvent reasoning_stage

datatype sse_line = NotData | Malformed | Data sse_event

datatype rejection = AbortError | OtherError string

text \<open>The outcome of an awaited promise.\<close>

datatype 'a awaited = Rejected rejection | Resolved 'a

text \<open>
  What happens while the session waits for \<open>reader.read()\<close>: the user presses Stop
  (\<open>handleStopFixing\<close> sets \<open>stopSignal.stopped\<close>), the read delivers lines, or the read
  rejects (the network fails, or the request is aborted: the effect at lines 153-158
  calls \<open>abort()\<close> on the controller whose signal the request carries). The end of the list
  is the end of the stream (\<open>done\<close>).
\<close>

datatype env_event = UserStop | ReadChunk "sse_line list" | ReadRejected rejection

subsection \<open>The read loop (lines 313-342)\<close>

record loop_state =
  stopped :: bool
  finalResult :: "final_result option"
  updates :: "reasoning_stage list"

text \<open>Lines 328-341; \<open>Inl\<close> is a thrown exception, with the state at the throw.\<close>

fun process_lines :: "sse_line list \<Rightarrow> loop_state \<Rightarrow> loop_state + loop_state" where
  "process_lines [] st = Inr st"
| "process_lines (NotData # ls) st = process_lines ls st"
| "process_lines (Malformed # ls) st = Inl st"
| "process_lines (Data (CompleteEvent r) # ls) st =
     process_lines ls (st\<lparr>finalResult := Some r\<rparr>)"
| "process_lines (Data (ErrorEvent e) # ls) st = Inl st"
| "process_lines (Data (ProgressEvent p) # ls) st =
     process_lines ls (st\<lparr>updates := updates st @ [p]\<rparr>)"

text \<open>
  The loop from the point where it waits for a read (the check of the stop flag at its
  head has passed); after the lines of a read, the head of the next iteration checks the
  flag and breaks when it is set.
\<close>

fun await_read :: "env_event list \<Rightarrow> loop_state \<Rightarrow> loop_state + loop_state" where
  "await_read [] st = Inr st"
| "await_read (UserStop # evs) st = await_read evs (st\<lparr>stopped := True\<rparr>)"
| "await_read (ReadRejected r # evs) st = Inl st"
| "await_read (ReadChunk ls # evs) st =
     (case process_lines ls st of
        Inl st' \<Rightarrow> Inl st'
      | Inr st' \<Rightarrow> if stopped st' then Inr st' else await_read evs st')"

definition read_stream :: "env_event list \<Rightarrow> loop_state \<Rightarrow> loop_state + loop_state" where
  "read_stream evs st = (if stopped st then Inr st else await_read evs st)"

subsection \<open>The session\<close>

text \<open>
  What the session meets: the stop flag when it starts (the code never resets it), the
  outcome of \<open>getApiSettings()\<close> (resolved: whether the settings are truthy), the outcome
  of \<open>fetch\<close> (resolved: \<open>response.ok\<close> and whether the response has a body), the
  events of the body stream, and \<open>Date.now()\<close> when the fix is applied.
\<close>

record session_env =
  stoppedAtStart :: bool
  apiSettings :: "bool awaited"
  fetchResponse :: "(bool \<times> bool) awaited"
  bodyStream :: "env_event list"
  appliedAt :: int

datatype toast = ToastInfo string | ToastSuccess string | ToastError string

text \<open>
  How the function ends: the early return of line 287, the \<open>catch\<close> block, the branch
  that applies the result, or the end of the \<open>try\<close> block with that branch skipped.
\<close>

datatype session_end = NotConfigured | Caught | Applied | NotApplied

record session_result =
  sr_end :: session_end
  sr_toasts :: "toast list"
  sr_updates :: "reasoning_stage list"
  sr_filesFixed :: "generated_file list option"
  sr_stopped :: bool
  sr_monitor :: monitor

definition analyzing_toast :: toast where
  "analyzing_toast = ToastInfo ''AI is analyzing and fixing the error...''"

text \<open>
  The writes of a session's end to the monitor, with the render that follows: the effect
  runs again when \<open>lastErrorHash\<close> has changed.
\<close>

definition after_writes :: "monitor \<Rightarrow> monitor \<Rightarrow> monitor" where
  "after_writes s s' = (if lastErrorHash s' \<noteq> lastErrorHash s then resubscribe s' else s')"

text \<open>Lines 372-382.\<close>

definition caught :: "string \<Rightarrow> monitor \<Rightarrow> loop_state \<Rightarrow> session_result" where
  "caught errorHash s st =
     \<lparr>sr_end = Caught,
      sr_toasts = [analyzing_toast, ToastError ''Failed to auto-fix the error''],
      sr_updates = updates st,
      sr_filesFixed = None,
      sr_stopped = stopped st,
      sr_monitor =
        after_writes s (s\<lparr>fixedErrors := fixedErrors s - {errorHash}, lastErrorHash := []\<rparr>)\<rparr>"

definition not_applied :: "monitor \<Rightarrow> loop_state \<Rightarrow> session_result" where
  "not_applied s st =
     \<lparr>sr_end = NotApplied, sr_toasts = [analyzing_toast], sr_updates = updates st,
      sr_filesFixed = None, sr_stopped = stopped st, sr_monitor = s\<rparr>"

text \<open>
  \<open>handleSandboxError(error, errorHash)\<close> over the files it closes over; \<open>s\<close> is the
  monitor's state when the session ends, to which its final \<open>set...\<close> calls apply.
\<close>

definition handleSandboxError ::
  "session_env \<Rightarrow> generated_file list \<Rightarrow> string \<Rightarrow> string \<Rightarrow> monitor \<Rightarrow> session_result" where
  "handleSandboxError env files error errorHash s =
     (let st0 = \<lparr>stopped = stoppedAtStart env, finalResult = None, updates = []\<rparr> in
      case apiSettings env of
        Rejected r \<Rightarrow> caught errorHash s st0
      | Resolved configured \<Rightarrow>
          if \<not> configured
          then \<lparr>sr_end = NotConfigured,
                sr_toasts = [analyzing_toast, ToastError ''API settings not configured''],
                sr_updates = [], sr_filesFixed = None, sr_stopped = stoppedAtStart env,
                sr_monitor = s\<rparr>
          else
            (case fetchResponse env of
               Rejected r \<Rightarrow> caught errorHash s st0
             | Resolved (ok, hasBody) \<Rightarrow>
                 if \<not> ok then caught errorHash s st0
                 else
                   (case (if hasBody then read_stream (bodyStream env) st0 else Inr st0) of
                      Inl st \<Rightarrow> caught errorHash s st
                    | Inr st \<Rightarrow>
                        (case finalResult st of
                           None \<Rightarrow> not_applied s st
                         | Some r \<Rightarrow>
                             (case fr_fixedFiles r of
                                None \<Rightarrow> not_applied s st
                              | Some fixedFiles \<Rightarrow>
                                  if \<not> stopped st \<and> fr_success r
                                  then
                                    \<lparr>sr_end = Applied,
                                     sr_toasts = [analyzing_toast,
                                       ToastSuccess (if fr_explanation r \<noteq> []
                                         then fr_explanation r else ''Error fixed!'')],
                                     sr_updates = updates st,
                                     sr_filesFixed = Some (applyFixedFiles files fixedFiles),
                                     sr_stopped = stopped st,
                                     sr_monitor = after_writes s
                                       (s\<lparr>lastErrorHash := [],
                                          lastSuccessTime := appliedAt env\<rparr>)\<rparr>
                                  else not_applied s st)))))"

text \<open>
  The project's files after the session: the owner replaces them by the list that
  \<open>onFilesFixed\<close> receives, and nothing else of the session reaches them.
\<close>

definition filesAfter :: "generated_file list \<Rightarrow> session_result \<Rightarrow> generated_file list" where
  "filesAfter files r = (case sr_filesFixed r of Some fs \<Rightarrow> fs | None \<Rightarrow> files)"

text \<open>
  The ends of a session. It is complete when the result was applied. It has failed when
  it ends with an error toast: in the \<open>catch\<close> block, or at the early return for
  missing API settings. It is aborted when it ends with the stop flag set, without a
  result applied and without an error shown.
\<close>

definition completed :: "session_result \<Rightarrow> bool" where
  "completed r = (sr_end r = Applied)"

definition failed :: "session_result \<Rightarrow> bool" where
  "failed r = (sr_end r = Caught \<or> sr_end r = NotConfigured)"

definition aborted :: "session_result \<Rightarrow> bool" where
  "aborted r = (sr_stopped r \<and> sr_end r = NotApplied)"

text \<open>
  The stage a running session shows after a prefix of its stream: the stage of the last
  update received, when the loop is still waiting for a read and the flag is not set.
\<close>

definition shown_stage :: "env_event list \<Rightarrow> string option" where
  "shown_stage evs =
     (case await_read evs \<lparr>stopped = False, finalResult = None, updates = []\<rparr> of
        Inl st \<Rightarrow> None
      | Inr st \<Rightarrow>
          if stopped st \<or> updates st = [] then None else Some (stage (last (updates st))))"

section \<open>The fixer service (smartSandboxErrorFixerService.js, reasoningService.js)\<close>

subsection \<open>Text scanning\<close>

text \<open>The characters \<open>\s\<close> matches and \<open>trim()\<close> strips, among the code units below 256.\<close>

definition is_space :: "char \<Rightarrow> bool" where
  "is_space c =
     (c = CHR 0x09 \<or> c = CHR 0x0A \<or> c = CHR 0x0B \<or> c = CHR 0x0C \<or> c = CHR 0x0D
      \<or> c = CHR 0x20 \<or> c = CHR 0xA0)"

definition trim :: "string \<Rightarrow> string" where
  "trim s = rev (dropWhile is_space (rev (dropWhile is_space s)))"

text \<open>
  \<open>text.match(/\{[\s\S]*\}/)\<close>: from the first opening brace to the last closing brace
  after it.
\<close>

definition brace_span :: "string \<Rightarrow> string option" where
  "brace_span s =
     (let t = dropWhile (\<lambda>c. c \<noteq> CHR ''{'') s;
          r = dropWhile (\<lambda>c. c \<noteq> CHR ''}'') (rev t)
      in if r = [] then None else Some (rev r))"

definition fence :: string where
  "fence = [CHR 0x60, CHR 0x60, CHR 0x60]"

definition lower_ascii :: "char \<Rightarrow> char" where
  "lower_ascii c =
     (if c = CHR ''J'' then CHR ''j'' else if c = CHR ''S'' then CHR ''s''
      else if c = CHR ''O'' then CHR ''o'' else if c = CHR ''N'' then CHR ''n'' else c)"

text \<open>
  The three replacements of \<open>parseReasoningResponse\<close>: a leading fence followed by
  "json" in any case and whitespace, a leading fence and whitespace, whitespace and a
  fence at the very end.
\<close>

definition strip_json_fence :: "string \<Rightarrow> string" where
  "strip_json_fence s =
     (if startsWith s fence \<and> map lower_ascii (take 4 (drop 3 s)) = ''json''
      then dropWhile is_space (drop 7 s) else s)"

definition strip_open_fence :: "string \<Rightarrow> string" where
  "strip_open_fence s = (if startsWith s fence then dropWhile is_space (drop 3 s) else s)"

definition strip_close_fence :: "string \<Rightarrow> string" where
  "strip_close_fence s =
     (if startsWith (rev s) fence then rev (dropWhile is_space (drop 3 (rev s))) else s)"

subsection \<open>The reasoning call\<close>

text \<open>
  One call of \<open>llmService.streamCompletion\<close>: the stream throws with a message, or its
  chunks add up to a text. The oracle gives the reply of the call with a given number;
  each function that calls it takes the number of calls made so far and returns the new
  number. \<open>JSON.parse\<close> is a parameter: it throws with a message (\<open>Inl\<close>) or returns
  the parsed record.
\<close>

datatype llm_reply = StreamFails string | StreamText string

definition parseReasoningResponse ::
  "(string \<Rightarrow> string + analysis) \<Rightarrow> string \<Rightarrow> string + analysis" where
  "parseReasoningResponse parseJSON response =
     (let cleanedResponse =
            strip_close_fence (strip_open_fence (strip_json_fence (trim response)))
      in case brace_span cleanedResponse of
           None \<Rightarrow> Inl ''No valid JSON in reasoning output''
         | Some js \<Rightarrow> parseJSON js)"

text \<open>The record the \<open>catch\<close> block of \<open>reasonAboutErrorFix\<close> returns.\<close>

definition fallback_analysis :: "string \<Rightarrow> string \<Rightarrow> analysis" where
  "fallback_analysis errorInfo msg =
     \<lparr>an_errorMessage = errorInfo,
      an_errorType = ''unknown'',
      an_fundamentalIssue = ''Unable to analyze error'',
      an_symptom = ''Analysis service error'',
      an_selected = ''manual_review'',
      an_strategyReasoning = ''Automatic analysis failed, manual review needed'',
      an_confidenceReasoning = ''Analysis service encountered an error'',
      an_error = Some msg\<rparr>"

definition reasonAboutErrorFix ::
  "(string \<Rightarrow> string + analysis) \<Rightarrow> (nat \<Rightarrow> llm_reply) \<Rightarrow> nat \<Rightarrow> string
     \<Rightarrow> analysis \<times> nat" where
  "reasonAboutErrorFix parseJSON oracle n errorInfo =
     (case oracle n of
        StreamFails msg \<Rightarrow> (fallback_analysis errorInfo msg, Suc n)
      | StreamText reasoningResponse \<Rightarrow>
          (case parseReasoningResponse parseJSON reasoningResponse of
             Inl msg \<Rightarrow> (fallback_analysis errorInfo msg, Suc n)
           | Inr a \<Rightarrow> (a, Suc n)))"

subsection \<open>Parsing the fix\<close>

text \<open>
  The fallback scan \<open>/===\s*([^\n]+)\s*===\n([\s\S]*?)(?====|$)/g\<close>. After the opening
  \<open>===\<close> the matcher takes whitespace, then the first group, then whitespace, each as
  long as possible and giving back one character at a time, until \<open>===\<close> and a newline
  follow. \<open>header_close\<close>, \<open>header_group\<close> and \<open>header_open\<close> return the text after the
  header (and the first group) for the first alternative that matches.
\<close>

fun header_close :: "string \<Rightarrow> string option" where
  "header_close [] = None"
| "header_close (c # cs) =
     (case (if is_space c then header_close cs else None) of
        Some r \<Rightarrow> Some r
      | None \<Rightarrow>
          if startsWith (c # cs) (''==='' @ [newline]) then Some (drop 4 (c # cs)) else None)"

fun header_group :: "string \<Rightarrow> (string \<times> string) option" where
  "header_group [] = None"
| "header_group (c # cs) =
     (if c = newline then None
      else
        (case header_group cs of
           Some (g, r) \<Rightarrow> Some (c # g, r)
         | None \<Rightarrow> (case header_close cs of Some r \<Rightarrow> Some ([c], r) | None \<Rightarrow> None)))"

fun header_open :: "string \<Rightarrow> (string \<times> string) option" where
  "header_open [] = None"
| "header_open (c # cs) =
     (case (if is_space c then header_open cs else None) of
        Some r \<Rightarrow> Some r
      | None \<Rightarrow> header_group (c # cs))"

text \<open>The second group: the shortest text up to the next \<open>===\<close> or the end.\<close>

fun block_body :: "string \<Rightarrow> string" where
  "block_body [] = []"
| "block_body (c # cs) = (if startsWith (c # cs) ''==='' then [] else c # block_body cs)"

text \<open>
  A match that starts at the head of the text: the two groups and the length of the
  match.
\<close>

definition block_at :: "string \<Rightarrow> (string \<times> string \<times> nat) option" where
  "block_at t =
     (if startsWith t ''===''
      then
        (case header_open (drop 3 t) of
           None \<Rightarrow> None
         | Some (g, r) \<Rightarrow>
             Some (g, block_body r, length t - length r + length (block_body r)))
      else None)"

text \<open>
  The \<open>exec\<close> loop: successive matches from left to right, each search starting where
  the last match ended; \<open>skip\<close> counts the characters of the last match still to pass.
  Each match assigns \<open>fixedFiles[filePath] = content\<close> with both groups trimmed.
\<close>

fun scan_blocks :: "nat \<Rightarrow> string \<Rightarrow> patch \<Rightarrow> patch" where
  "scan_blocks skip [] fixedFiles = fixedFiles"
| "scan_blocks (Suc skip) (c # cs) fixedFiles = scan_blocks skip cs fixedFiles"
| "scan_blocks 0 (c # cs) fixedFiles =
     (case block_at (c # cs) of
        None \<Rightarrow> scan_blocks 0 cs fixedFiles
      | Some (g, b, n) \<Rightarrow> scan_blocks (n - 1) cs (AList.update (trim g) (trim b) fixedFiles))"

definition fileBlocks :: "string \<Rightarrow> patch" where
  "fileBlocks response = scan_blocks 0 response []"

text \<open>
  The record \<open>JSON.parse\<close> returns for a fix response, as the service reads it:
  \<open>files\<close> (\<open>None\<close> when falsy or absent) and \<open>explanation\<close> (empty when falsy or
  absent).
\<close>

record fix_json =
  fj_files :: "patch option"
  fj_explanation :: string

text \<open>The files of the JSON object in the response, when there is one.\<close>

definition json_files :: "(string \<Rightarrow> string + fix_json) \<Rightarrow> string \<Rightarrow> patch option" where
  "json_files parseJSON response =
     (case brace_span response of
        None \<Rightarrow> None
      | Some js \<Rightarrow> (case parseJSON js of Inl msg \<Rightarrow> None | Inr parsed \<Rightarrow> fj_files parsed))"

definition parseFixedFiles :: "(string \<Rightarrow> string + fix_json) \<Rightarrow> string \<Rightarrow> patch" where
  "parseFixedFiles parseJSON response =
     (case json_files parseJSON response of
        Some files \<Rightarrow> files
      | None \<Rightarrow> fileBlocks response)"

definition extractExplanation :: "(string \<Rightarrow> string + fix_json) \<Rightarrow> string \<Rightarrow> string" where
  "extractExplanation parseJSON response =
     (case brace_span response of
        None \<Rightarrow> ''Applied fixes based on deep reasoning and codebase analysis''
      | Some js \<Rightarrow>
          (case parseJSON js of
             Inl msg \<Rightarrow> ''Applied fixes based on deep reasoning and codebase analysis''
           | Inr parsed \<Rightarrow>
               if fj_explanation parsed \<noteq> [] then fj_explanation parsed
               else ''Applied fixes based on deep reasoning''))"

subsection \<open>Verification\<close>

text \<open>
  \<open>/function\s+\w+\([^)]*\)\s*\{\s*\}/\<close> at the head of a text, and anywhere in it.
\<close>

definition is_word :: "char \<Rightarrow> bool" where
  "is_word c =
     (let n = (of_char c :: nat)
      in (48 \<le> n \<and> n \<le> 57) \<or> (65 \<le> n \<and> n \<le> 90) \<or> n = 95 \<or> (97 \<le> n \<and> n \<le> 122))"

definition empty_function_at :: "string \<Rightarrow> bool" where
  "empty_function_at t =
     (startsWith t ''function'' \<and>
      (let t1 = drop 8 t; t2 = dropWhile is_space t1; t3 = dropWhile is_word t2 in
       length t2 < length t1 \<and> length t3 < length t2 \<and>
       (case t3 of
          [] \<Rightarrow> False
        | c3 # t4 \<Rightarrow>
            c3 = CHR ''('' \<and>
            (case dropWhile (\<lambda>c. c \<noteq> CHR '')'') t4 of
               [] \<Rightarrow> False
             | c5 # t5 \<Rightarrow>
                 (case dropWhile is_space t5 of
                    [] \<Rightarrow> False
                  | c6 # t6 \<Rightarrow>
                      c6 = CHR ''{'' \<and>
                      (case dropWhile is_space t6 of
                         [] \<Rightarrow> False
                       | c7 # t7 \<Rightarrow> c7 = CHR ''}''))))))"

fun has_empty_function :: "string \<Rightarrow> bool" where
  "has_empty_function [] = False"
| "has_empty_function (c # cs) = (empty_function_at (c # cs) \<or> has_empty_function cs)"

record verification =
  filesModified :: nat
  noEmptyFunctions :: bool
  noTODOComments :: bool
  validSyntax :: bool
  importsResolved :: bool
  warnings :: "string list"

text \<open>
  The body of the loop of \<open>verifyFixes\<close> for one entry of the patch: the checks for
  empty functions and for TODO comments, then the check for \<open>undefined\<close>.
\<close>

definition checkEmptyAndTodo :: "verification \<Rightarrow> string \<times> string \<Rightarrow> verification" where
  "checkEmptyAndTodo v entry =
     (let p = fst entry; c = snd entry;
          v1 = (if has_empty_function c
                then v\<lparr>noEmptyFunctions := False,
                       warnings := warnings v @ [p @ '': Contains empty function'']\<rparr>
                else v)
      in if includes_str c ''// TODO'' \<or> includes_str c ''// FIXME''
         then v1\<lparr>noTODOComments := False,
                 warnings := warnings v1 @ [p @ '': Contains TODO/FIXME comments'']\<rparr>
         else v1)"

definition verifyFile :: "verification \<Rightarrow> string \<times> string \<Rightarrow> verification" where
  "verifyFile v entry =
     (let p = fst entry; c = snd entry; v2 = checkEmptyAndTodo v entry
      in if includes_str c ''undefined'' \<and> \<not> includes_str c ''!== undefined''
         then v2\<lparr>warnings := warnings v2 @ [p @ '': May have undefined references'']\<rparr>
         else v2)"

definition verifyFixes :: "patch \<Rightarrow> string \<Rightarrow> verification" where
  "verifyFixes fixedFiles originalError =
     foldl verifyFile
       \<lparr>filesModified = length fixedFiles, noEmptyFunctions = True, noTODOComments = True,
        validSyntax = True, importsResolved = True, warnings = []\<rparr>
       fixedFiles"

subsection \<open>The pipeline and the route\<close>

text \<open>
  The result of \<open>fixWithReasoning\<close>: the success record (fixed files, explanation,
  reasoning, verification) or the failure record (error message, reasoning). The codebase
  analysis is advisory text for the prompt and is left out, as are the prompts.
\<close>

datatype fix_result =
    FixSucceeded patch string analysis verification
  | FixFailed string "analysis option"

record fix_run =
  fx_updates :: "reasoning_stage list"
  fx_result :: fix_result
  fx_calls :: nat

definition stage_update :: "string \<Rightarrow> string \<Rightarrow> nat \<Rightarrow> analysis option \<Rightarrow> reasoning_stage" where
  "stage_update st msg pr re =
     \<lparr>stage = st, stage_message = msg, progress = pr, stage_reasoning = re\<rparr>"

definition fixWithReasoning ::
  "(string \<Rightarrow> string + analysis) \<Rightarrow> (string \<Rightarrow> string + fix_json) \<Rightarrow> (nat \<Rightarrow> llm_reply)
     \<Rightarrow> string \<Rightarrow> fix_run" where
  "fixWithReasoning parseAnalysis parseFix oracle error =
     (let (errorAnalysis, n) = reasonAboutErrorFix parseAnalysis oracle 0 error;
          started =
            [stage_update ''analyzing'' ''Analyzing error and codebase context...'' 10 None,
             stage_update ''reasoning_complete'' ''Root cause identified'' 30
               (Some errorAnalysis),
             stage_update ''codebase_analysis''
               ''Scanning entire codebase for related issues...'' 40 None,
             stage_update ''generating_fix''
               ''Implementing fixes across affected files...'' 60 None]
      in case oracle n of
           StreamFails msg \<Rightarrow>
             \<lparr>fx_updates = started @ [stage_update ''error'' (''Fix failed: '' @ msg) 0 None],
              fx_result = FixFailed msg (Some errorAnalysis),
              fx_calls = Suc n\<rparr>
         | StreamText response \<Rightarrow>
             (let files = parseFixedFiles parseFix response;
                  explanation = extractExplanation parseFix response;
                  verification = verifyFixes files error
              in \<lparr>fx_updates = started
                     @ [stage_update ''verifying'' ''Verifying fixes...'' 80 None,
                        stage_update ''complete'' ''Fix complete and verified'' 100 None],
                   fx_result = FixSucceeded files explanation errorAnalysis verification,
                   fx_calls = Suc n\<rparr>))"

text \<open>
  The records the route writes to the response: every stage update, then the final
  record of type "complete" or "error".
\<close>

definition route_events :: "fix_run \<Rightarrow> sse_event list" where
  "route_events run =
     map ProgressEvent (fx_updates run)
     @ [case fx_result run of
          FixSucceeded files explanation reasoning verification \<Rightarrow>
            CompleteEvent
              \<lparr>fr_success = True, fr_fixedFiles = Some files, fr_explanation = explanation\<rparr>
        | FixFailed msg reasoning \<Rightarrow> ErrorEvent msg]"

text \<open>A body stream that delivers the records one per read.\<close>

definition one_per_read :: "sse_event list \<Rightarrow> env_event list" where
  "one_per_read evs = map (\<lambda>e. ReadChunk [Data e]) evs"

section \<open>Admission of faults: deduplication, cooldown and grace window\<close>

lemma fire_timeouts_fields:
  "lastErrorHash (fire_timeouts now s) = lastErrorHash s"
  "fixedErrors (fire_timeouts now s) = fixedErrors s"
  "lastSuccessTime (fire_timeouts now s) = lastSuccessTime s"
  "seenFixedErrors (fire_timeouts now s) = seenFixedErrors s"
  "seenCooldown (fire_timeouts now s) = seenCooldown s"
  "seenSuccessTime (fire_timeouts now s) = seenSuccessTime s"
  by (simp_all add: fire_timeouts_def)

lemma deliver_success:
  "deliver s T (Done False) =
     (resubscribe
        ((fire_timeouts T s)\<lparr>lastSuccessTime := T, fixedErrors := {}, errorCooldown := False\<rparr>),
      BuildSucceeded)"
  by (simp add: deliver_def listener_def)


lemma listener_accepts:
  assumes "is_fault m" and "\<not> seenCooldown s" and "fingerprint m \<notin> seenFixedErrors s"
    and "fingerprint m \<noteq> lastErrorHash s" and "2000 \<le> now - seenSuccessTime s"
  shows "listener s now m =
     (resubscribe
        (s\<lparr>lastErrorHash := fingerprint m,
           fixedErrors := insert (fingerprint m) (fixedErrors s),
           errorCooldown := True,
           pendingTimeouts := pendingTimeouts s @ [now + 5000]\<rparr>),
      Accepted (fst (detect m) @ '': '' @ snd (detect m)) (fingerprint m))"
  using assms by (simp add: listener_def is_fault_def fingerprint_def Let_def)





text \<open>
  C3 as stated fails: the successful build empties \<open>fixedErrors\<close> but keeps
  \<open>lastErrorHash\<close>, and the listener skips an error whose hash equals it (line 248).
  A fault accepted at 10000 whose session has neither applied a fix nor failed is
  therefore not accepted again at 20000, 9000 ms after the successful build at 11000.
\<close>

theorem last_fault_skipped_after_success:
  "snd (deliver initial_monitor 10000 (Notification ''error'' ''Build broke''))
     = Accepted ''Build Error: Build broke'' ''Build Error:Build broke''
   \<and> fixedErrors (fst (deliver (fst (deliver initial_monitor 10000
          (Notification ''error'' ''Build broke''))) 11000 (Done False))) = {}
   \<and> snd (deliver (fst (deliver (fst (deliver initial_monitor 10000
          (Notification ''error'' ''Build broke''))) 11000 (Done False))) 20000
          (Notification ''error'' ''Build broke''))
     = Suppressed SameAsLast"
  by (simp add: deliver_def listener_def fire_timeouts_def initial_monitor_def
      errorHash_of_def Let_def resubscribe_def)

text \<open>
  C3, amended. After a successful build at \<open>T\<close> the set of fixed errors is empty and the
  cooldown is off; a fault that arrives at \<open>T + 2000\<close> or later, with no event in
  between, is accepted whether or not it was seen before, provided its hash differs from
  \<open>lastErrorHash\<close> (the hash of the last accepted fault, which only an applied fix or
  a failed session clears).
\<close>

theorem success_resets_tracking:
  assumes "deliver s T (Done False) = (s1, r1)"
    and "is_fault m"
    and "T + 2000 \<le> T'"
    and "fingerprint m \<noteq> lastErrorHash s"
  shows "fixedErrors s1 = {} \<and> \<not> errorCooldown s1
    \<and> (\<exists>s2. deliver s1 T' m =
          (s2, Accepted (fst (detect m) @ '': '' @ snd (detect m)) (fingerprint m)))"
proof -
  from assms(1) have s1: "s1 = resubscribe ((fire_timeouts T s)\<lparr>lastSuccessTime := T,
      fixedErrors := {}, errorCooldown := False\<rparr>)"
    by (simp add: deliver_success)
  have nc: "\<not> seenCooldown (fire_timeouts T' s1)"
    using s1 by (simp add: fire_timeouts_fields resubscribe_def)
  have nf: "fingerprint m \<notin> seenFixedErrors (fire_timeouts T' s1)"
    using s1 by (simp add: fire_timeouts_fields resubscribe_def)
  have nl: "fingerprint m \<noteq> lastErrorHash (fire_timeouts T' s1)"
    using s1 assms(4) by (simp add: fire_timeouts_fields resubscribe_def)
  have gr: "2000 \<le> T' - seenSuccessTime (fire_timeouts T' s1)"
    using s1 assms(3) by (simp add: fire_timeouts_fields resubscribe_def)
  from listener_accepts [OF assms(2) nc nf nl gr] s1
  show ?thesis by (simp add: deliver_def resubscribe_def)
qed

theorem success_resets_tracking_witness:
  "deliver \<lparr>lastErrorHash = ''Build Error:Other'',
         fixedErrors = {''Build Error:Build broke'', ''Build Error:Other''},
         errorCooldown = True, lastSuccessTime = 0, pendingTimeouts = [15000],
         seenFixedErrors = {''Build Error:Build broke'', ''Build Error:Other''},
         seenCooldown = True, seenSuccessTime = 0\<rparr>
       11000 (Done False)
     = (\<lparr>lastErrorHash = ''Build Error:Other'', fixedErrors = {},
         errorCooldown = False, lastSuccessTime = 11000, pendingTimeouts = [15000],
         seenFixedErrors = {}, seenCooldown = False, seenSuccessTime = 11000\<rparr>,
        BuildSucceeded)
   \<and> is_fault (Notification ''error'' ''Build broke'')
   \<and> snd (deliver \<lparr>lastErrorHash = ''Build Error:Other'', fixedErrors = {},
         errorCooldown = False, lastSuccessTime = 11000, pendingTimeouts = [15000],
         seenFixedErrors = {}, seenCooldown = False, seenSuccessTime = 11000\<rparr>
       13000 (Notification ''error'' ''Build broke''))
     = Accepted ''Build Error: Build broke'' ''Build Error:Build broke''"
proof -
  let ?m = "Notification ''error'' ''Build broke''"
  let ?s = "\<lparr>lastErrorHash = ''Build Error:Other'',
         fixedErrors = {''Build Error:Build broke'', ''Build Error:Other''},
         errorCooldown = True, lastSuccessTime = 0, pendingTimeouts = [15000],
         seenFixedErrors = {''Build Error:Build broke'', ''Build Error:Other''},
         seenCooldown = True, seenSuccessTime = 0\<rparr>"
  let ?s1 = "\<lparr>lastErrorHash = ''Build Error:Other'', fixedErrors = {},
         errorCooldown = False, lastSuccessTime = 11000, pendingTimeouts = [15000],
         seenFixedErrors = {}, seenCooldown = False, seenSuccessTime = 11000\<rparr>"
  have a: "deliver ?s 11000 (Done False) = (?s1, BuildSucceeded)"
    by (simp add: deliver_def listener_def fire_timeouts_def resubscribe_def)
  have b: "is_fault ?m" by (simp add: is_fault_def)
  have c: "(11000::int) + 2000 \<le> 13000" by simp
  have d: "fingerprint ?m \<noteq> lastErrorHash ?s"
    by (simp add: fingerprint_def errorHash_of_def)
  have e: "fst (detect ?m) @ '': '' @ snd (detect ?m) = ''Build Error: Build broke''"
    and f: "fingerprint ?m = ''Build Error:Build broke''"
    by (simp_all add: fingerprint_def errorHash_of_def)
  from success_resets_tracking [OF a b c d] a b show ?thesis
    unfolding e f by auto
qed

text \<open>
  C8 fails on the code. The cooldown is one flag, and the timeout of an earlier accept
  is never cleared: it ends the cooldown of a later accept. Fault A is accepted at 2000
  and a build succeeds at 3000; fault B is accepted at 5000; the timeout of A runs at
  7000; the session of B fails at 7200; B arrives again at 7500 and is accepted, 2500 ms
  after it was accepted and with no successful build since.
\<close>

theorem cooldown_cut_short_by_older_timeout:
  "deliver initial_monitor 2000 (Notification ''error'' ''First problem'')
     = (\<lparr>lastErrorHash = ''Build Error:First problem'', fixedErrors = {''Build Error:First problem''},
          errorCooldown = True, lastSuccessTime = 0, pendingTimeouts = [7000],
          seenFixedErrors = {''Build Error:First problem''}, seenCooldown = True, seenSuccessTime = 0\<rparr>,
        Accepted ''Build Error: First problem'' ''Build Error:First problem'')
   \<and> deliver \<lparr>lastErrorHash = ''Build Error:First problem'', fixedErrors = {''Build Error:First problem''},
          errorCooldown = True, lastSuccessTime = 0, pendingTimeouts = [7000],
          seenFixedErrors = {''Build Error:First problem''}, seenCooldown = True, seenSuccessTime = 0\<rparr>
        3000 (Done False)
     = (\<lparr>lastErrorHash = ''Build Error:First problem'', fixedErrors = {},
          errorCooldown = False, lastSuccessTime = 3000, pendingTimeouts = [7000],
          seenFixedErrors = {}, seenCooldown = False, seenSuccessTime = 3000\<rparr>,
        BuildSucceeded)
   \<and> deliver \<lparr>lastErrorHash = ''Build Error:First problem'', fixedErrors = {},
          errorCooldown = False, lastSuccessTime = 3000, pendingTimeouts = [7000],
          seenFixedErrors = {}, seenCooldown = False, seenSuccessTime = 3000\<rparr>
        5000 (Notification ''error'' ''Build broke'')
     = (\<lparr>lastErrorHash = ''Build Error:Build broke'', fixedErrors = {''Build Error:Build broke''},
          errorCooldown = True, lastSuccessTime = 3000, pendingTimeouts = [7000, 10000],
          seenFixedErrors = {''Build Error:Build broke''}, seenCooldown = True, seenSuccessTime = 3000\<rparr>,
        Accepted ''Build Error: Build broke'' ''Build Error:Build broke'')
   \<and> fire_timeouts 7200
        \<lparr>lastErrorHash = ''Build Error:Build broke'', fixedErrors = {''Build Error:Build broke''},
          errorCooldown = True, lastSuccessTime = 3000, pendingTimeouts = [7000, 10000],
          seenFixedErrors = {''Build Error:Build broke''}, seenCooldown = True, seenSuccessTime = 3000\<rparr>
     = \<lparr>lastErrorHash = ''Build Error:Build broke'', fixedErrors = {''Build Error:Build broke''},
          errorCooldown = False, lastSuccessTime = 3000, pendingTimeouts = [10000],
          seenFixedErrors = {''Build Error:Build broke''}, seenCooldown = True, seenSuccessTime = 3000\<rparr>
   \<and> sr_end (handleSandboxError
        \<lparr>stoppedAtStart = False, apiSettings = Resolved True,
          fetchResponse = Resolved (True, True),
          bodyStream = [ReadChunk [Data (ErrorEvent ''LLM request failed'')]],
          appliedAt = 0\<rparr>
        [\<lparr>path = ''/src/App.tsx'', content = ''broken''\<rparr>]
        ''Build Error: Build broke'' ''Build Error:Build broke''
        \<lparr>lastErrorHash = ''Build Error:Build broke'', fixedErrors = {''Build Error:Build broke''},
          errorCooldown = False, lastSuccessTime = 3000, pendingTimeouts = [10000],
          seenFixedErrors = {''Build Error:Build broke''}, seenCooldown = True, seenSuccessTime = 3000\<rparr>) = Caught
   \<and> sr_monitor (handleSandboxError
        \<lparr>stoppedAtStart = False, apiSettings = Resolved True,
          fetchResponse = Resolved (True, True),
          bodyStream = [ReadChunk [Data (ErrorEvent ''LLM request failed'')]],
          appliedAt = 0\<rparr>
        [\<lparr>path = ''/src/App.tsx'', content = ''broken''\<rparr>]
        ''Build Error: Build broke'' ''Build Error:Build broke''
        \<lparr>lastErrorHash = ''Build Error:Build broke'', fixedErrors = {''Build Error:Build broke''},
          errorCooldown = False, lastSuccessTime = 3000, pendingTimeouts = [10000],
          seenFixedErrors = {''Build Error:Build broke''}, seenCooldown = True, seenSuccessTime = 3000\<rparr>)
     = \<lparr>lastErrorHash = [], fixedErrors = {},
          errorCooldown = False, lastSuccessTime = 3000, pendingTimeouts = [10000],
          seenFixedErrors = {}, seenCooldown = False, seenSuccessTime = 3000\<rparr>
   \<and> deliver \<lparr>lastErrorHash = [], fixedErrors = {},
          errorCooldown = False, lastSuccessTime = 3000, pendingTimeouts = [10000],
          seenFixedErrors = {}, seenCooldown = False, seenSuccessTime = 3000\<rparr>
        7500 (Notification ''error'' ''Build broke'')
     = (\<lparr>lastErrorHash = ''Build Error:Build broke'', fixedErrors = {''Build Error:Build broke''},
          errorCooldown = True, lastSuccessTime = 3000, pendingTimeouts = [10000, 12500],
          seenFixedErrors = {''Build Error:Build broke''}, seenCooldown = True, seenSuccessTime = 3000\<rparr>,
        Accepted ''Build Error: Build broke'' ''Build Error:Build broke'')"
  by (simp add: deliver_def listener_def fire_timeouts_def initial_monitor_def
      errorHash_of_def Let_def resubscribe_def handleSandboxError_def read_stream_def
      caught_def after_writes_def)

section \<open>The repair session\<close>

lemma process_lines_stopped:
  "process_lines ls st = Inr st' \<Longrightarrow> stopped st' = stopped st"
  "process_lines ls st = Inl st' \<Longrightarrow> stopped st' = stopped st"
  by (induction ls st rule: process_lines.induct) auto

lemma await_read_stopped_mono:
  "stopped st \<Longrightarrow> await_read evs st = Inr st' \<Longrightarrow> stopped st'"
  "stopped st \<Longrightarrow> await_read evs st = Inl st' \<Longrightarrow> stopped st'"
  by (induction evs st rule: await_read.induct)
     (auto split: sum.splits if_splits dest: process_lines_stopped)

lemma await_read_append:
  "await_read pre st = Inr st' \<Longrightarrow> \<not> stopped st' \<Longrightarrow>
     await_read (pre @ rest) st = await_read rest st'"
proof (induction pre st rule: await_read.induct)
  case (1 st)
  then show ?case by simp
next
  case (2 evs st)
  then show ?case by simp
next
  case (3 r evs st)
  then show ?case by simp
next
  case (4 ls evs st)
  then show ?case by (auto split: sum.splits if_splits)
qed

lemma shown_stage_running:
  assumes "shown_stage pre = Some sg"
  shows "\<exists>st. await_read pre \<lparr>stopped = False, finalResult = None, updates = []\<rparr> = Inr st
    \<and> \<not> stopped st"
  using assms by (auto simp: shown_stage_def split: sum.splits if_splits)

lemma handle_stopped_stream:
  assumes "apiSettings env = Resolved True"
    and "fetchResponse env = Resolved (True, True)"
    and "stoppedAtStart env = False"
    and "await_read (bodyStream env) \<lparr>stopped = False, finalResult = None, updates = []\<rparr> = res"
    and "case res of Inl st \<Rightarrow> stopped st | Inr st \<Rightarrow> stopped st"
  shows "sr_stopped (handleSandboxError env files e h s)
    \<and> sr_end (handleSandboxError env files e h s) \<noteq> Applied
    \<and> sr_filesFixed (handleSandboxError env files e h s) = None"
  using assms
  by (cases res)
     (auto simp: handleSandboxError_def read_stream_def caught_def not_applied_def
       split: option.splits)

text \<open>
  Once the user has pressed Stop while the session shows the stage "generating_fix",
  \<open>onFilesFixed\<close> is not called, whatever the stream delivers afterwards: the
  project's files are the files from before.
\<close>

lemma stop_never_merges:
  assumes "apiSettings env = Resolved True"
    and "fetchResponse env = Resolved (True, True)"
    and "stoppedAtStart env = False"
    and "bodyStream env = pre @ UserStop # post"
    and "shown_stage pre = Some ''generating_fix''"
  shows "sr_stopped (handleSandboxError env files e h s)
    \<and> sr_end (handleSandboxError env files e h s) \<noteq> Applied
    \<and> sr_filesFixed (handleSandboxError env files e h s) = None
    \<and> filesAfter files (handleSandboxError env files e h s) = files"
proof -
  let ?st0 = "\<lparr>stopped = False, finalResult = None, updates = []\<rparr>"
  from shown_stage_running [OF assms(5)]
  obtain st where pre: "await_read pre ?st0 = Inr st" and run: "\<not> stopped st"
    by blast
  have eq: "await_read (bodyStream env) ?st0 = await_read post (st\<lparr>stopped := True\<rparr>)"
    unfolding assms(4) using await_read_append [OF pre run] by simp
  have "case await_read post (st\<lparr>stopped := True\<rparr>) of
          Inl st' \<Rightarrow> stopped st' | Inr st' \<Rightarrow> stopped st'"
    using await_read_stopped_mono [of "st\<lparr>stopped := True\<rparr>" post]
    by (auto split: sum.splits)
  from handle_stopped_stream [OF assms(1-3) eq this]
  show ?thesis by (simp add: filesAfter_def)
qed

text \<open>
  C6 fails on the code, in two ways. A fault is accepted at 10000 and its session ends
  in the \<open>catch\<close> block, which removes the hash and, by clearing \<open>lastErrorHash\<close>,
  subscribes the listener anew while the cooldown is still on; the timeout at 15000
  clears the cell, but the subscribed listener does not see it, and the fault is skipped
  for cooldown at 15001. And a session that ends at the early return for missing API
  settings shows an error and keeps the hash: even after the provider has rendered at
  16000, the fault is skipped as already fixed at 20000.
\<close>

theorem retry_after_failure_suppressed:
  "deliver initial_monitor 10000 (Notification ''error'' ''Build broke'')
     = (\<lparr>lastErrorHash = ''Build Error:Build broke'', fixedErrors = {''Build Error:Build broke''},
          errorCooldown = True, lastSuccessTime = 0, pendingTimeouts = [15000],
          seenFixedErrors = {''Build Error:Build broke''}, seenCooldown = True, seenSuccessTime = 0\<rparr>,
        Accepted ''Build Error: Build broke'' ''Build Error:Build broke'')
   \<and> failed (handleSandboxError
        \<lparr>stoppedAtStart = False, apiSettings = Resolved True,
          fetchResponse = Resolved (True, True),
          bodyStream = [ReadChunk [Data (ErrorEvent ''LLM request failed'')]],
          appliedAt = 0\<rparr>
        [\<lparr>path = ''/src/App.tsx'', content = ''broken''\<rparr>]
        ''Build Error: Build broke'' ''Build Error:Build broke''
        \<lparr>lastErrorHash = ''Build Error:Build broke'', fixedErrors = {''Build Error:Build broke''},
          errorCooldown = True, lastSuccessTime = 0, pendingTimeouts = [15000],
          seenFixedErrors = {''Build Error:Build broke''}, seenCooldown = True, seenSuccessTime = 0\<rparr>)
   \<and> sr_monitor (handleSandboxError
        \<lparr>stoppedAtStart = False, apiSettings = Resolved True,
          fetchResponse = Resolved (True, True),
          bodyStream = [ReadChunk [Data (ErrorEvent ''LLM request failed'')]],
          appliedAt = 0\<rparr>
        [\<lparr>path = ''/src/App.tsx'', content = ''broken''\<rparr>]
        ''Build Error: Build broke'' ''Build Error:Build broke''
        \<lparr>lastErrorHash = ''Build Error:Build broke'', fixedErrors = {''Build Error:Build broke''},
          errorCooldown = True, lastSuccessTime = 0, pendingTimeouts = [15000],
          seenFixedErrors = {''Build Error:Build broke''}, seenCooldown = True, seenSuccessTime = 0\<rparr>)
     = \<lparr>lastErrorHash = [], fixedErrors = {},
          errorCooldown = True, lastSuccessTime = 0, pendingTimeouts = [15000],
          seenFixedErrors = {}, seenCooldown = True, seenSuccessTime = 0\<rparr>
   \<and> deliver \<lparr>lastErrorHash = [], fixedErrors = {},
          errorCooldown = True, lastSuccessTime = 0, pendingTimeouts = [15000],
          seenFixedErrors = {}, seenCooldown = True, seenSuccessTime = 0\<rparr>
        15001 (Notification ''error'' ''Build broke'')
     = (\<lparr>lastErrorHash = [], fixedErrors = {},
          errorCooldown = False, lastSuccessTime = 0, pendingTimeouts = [],
          seenFixedErrors = {}, seenCooldown = True, seenSuccessTime = 0\<rparr>,
        Suppressed Cooldown)
   \<and> failed (handleSandboxError
        \<lparr>stoppedAtStart = False, apiSettings = Resolved False,
          fetchResponse = Resolved (True, True), bodyStream = [], appliedAt = 0\<rparr>
        [\<lparr>path = ''/src/App.tsx'', content = ''broken''\<rparr>]
        ''Build Error: Build broke'' ''Build Error:Build broke''
        \<lparr>lastErrorHash = ''Build Error:Build broke'', fixedErrors = {''Build Error:Build broke''},
          errorCooldown = True, lastSuccessTime = 0, pendingTimeouts = [15000],
          seenFixedErrors = {''Build Error:Build broke''}, seenCooldown = True, seenSuccessTime = 0\<rparr>)
   \<and> sr_toasts (handleSandboxError
        \<lparr>stoppedAtStart = False, apiSettings = Resolved False,
          fetchResponse = Resolved (True, True), bodyStream = [], appliedAt = 0\<rparr>
        [\<lparr>path = ''/src/App.tsx'', content = ''broken''\<rparr>]
        ''Build Error: Build broke'' ''Build Error:Build broke''
        \<lparr>lastErrorHash = ''Build Error:Build broke'', fixedErrors = {''Build Error:Build broke''},
          errorCooldown = True, lastSuccessTime = 0, pendingTimeouts = [15000],
          seenFixedErrors = {''Build Error:Build broke''}, seenCooldown = True, seenSuccessTime = 0\<rparr>)
     = [ToastInfo ''AI is analyzing and fixing the error...'',
        ToastError ''API settings not configured'']
   \<and> sr_monitor (handleSandboxError
        \<lparr>stoppedAtStart = False, apiSettings = Resolved False,
          fetchResponse = Resolved (True, True), bodyStream = [], appliedAt = 0\<rparr>
        [\<lparr>path = ''/src/App.tsx'', content = ''broken''\<rparr>]
        ''Build Error: Build broke'' ''Build Error:Build broke''
        \<lparr>lastErrorHash = ''Build Error:Build broke'', fixedErrors = {''Build Error:Build broke''},
          errorCooldown = True, lastSuccessTime = 0, pendingTimeouts = [15000],
          seenFixedErrors = {''Build Error:Build broke''}, seenCooldown = True, seenSuccessTime = 0\<rparr>)
     = \<lparr>lastErrorHash = ''Build Error:Build broke'', fixedErrors = {''Build Error:Build broke''},
          errorCooldown = True, lastSuccessTime = 0, pendingTimeouts = [15000],
          seenFixedErrors = {''Build Error:Build broke''}, seenCooldown = True, seenSuccessTime = 0\<rparr>
   \<and> provider_render 16000
        \<lparr>lastErrorHash = ''Build Error:Build broke'', fixedErrors = {''Build Error:Build broke''},
          errorCooldown = True, lastSuccessTime = 0, pendingTimeouts = [15000],
          seenFixedErrors = {''Build Error:Build broke''}, seenCooldown = True, seenSuccessTime = 0\<rparr>
     = \<lparr>lastErrorHash = ''Build Error:Build broke'', fixedErrors = {''Build Error:Build broke''},
          errorCooldown = False, lastSuccessTime = 0, pendingTimeouts = [],
          seenFixedErrors = {''Build Error:Build broke''}, seenCooldown = False, seenSuccessTime = 0\<rparr>
   \<and> deliver \<lparr>lastErrorHash = ''Build Error:Build broke'', fixedErrors = {''Build Error:Build broke''},
          errorCooldown = False, lastSuccessTime = 0, pendingTimeouts = [],
          seenFixedErrors = {''Build Error:Build broke''}, seenCooldown = False, seenSuccessTime = 0\<rparr>
        20000 (Notification ''error'' ''Build broke'')
     = (\<lparr>lastErrorHash = ''Build Error:Build broke'', fixedErrors = {''Build Error:Build broke''},
          errorCooldown = False, lastSuccessTime = 0, pendingTimeouts = [],
          seenFixedErrors = {''Build Error:Build broke''}, seenCooldown = False, seenSuccessTime = 0\<rparr>,
        Suppressed AlreadyFixed)"
  by (simp add: deliver_def listener_def fire_timeouts_def initial_monitor_def
      errorHash_of_def Let_def resubscribe_def handleSandboxError_def read_stream_def
      caught_def after_writes_def failed_def provider_render_def analyzing_toast_def)

text \<open>
  C4 fails on the code in its first half. The user presses Stop while the session
  shows the stage "generating_fix"; the request is aborted and the pending read rejects.
  The project's files are the files from before, as the claim says, but the session does
  not end aborted: it ends in the \<open>catch\<close> block, as a failed session does.
\<close>

theorem stop_ends_in_failure_handler:
  "shown_stage
     [ReadChunk [Data (ProgressEvent (stage_update ''codebase_analysis''
              ''Scanning entire codebase for related issues...'' 40 None))],
            ReadChunk [Data (ProgressEvent (stage_update ''generating_fix''
              ''Implementing fixes across affected files...'' 60 None))]]
     = Some ''generating_fix''
   \<and> sr_stopped (handleSandboxError
        \<lparr>stoppedAtStart = False, apiSettings = Resolved True,
         fetchResponse = Resolved (True, True),
         bodyStream =
           [ReadChunk [Data (ProgressEvent (stage_update ''codebase_analysis''
              ''Scanning entire codebase for related issues...'' 40 None))],
            ReadChunk [Data (ProgressEvent (stage_update ''generating_fix''
              ''Implementing fixes across affected files...'' 60 None))]]
           @ [UserStop, ReadRejected AbortError],
         appliedAt = 20000\<rparr>
        [\<lparr>path = ''/src/App.tsx'', content = ''broken''\<rparr>]
        ''Build Error: Build broke'' ''Build Error:Build broke'' initial_monitor)
   \<and> sr_end (handleSandboxError
        \<lparr>stoppedAtStart = False, apiSettings = Resolved True,
         fetchResponse = Resolved (True, True),
         bodyStream =
           [ReadChunk [Data (ProgressEvent (stage_update ''codebase_analysis''
              ''Scanning entire codebase for related issues...'' 40 None))],
            ReadChunk [Data (ProgressEvent (stage_update ''generating_fix''
              ''Implementing fixes across affected files...'' 60 None))]]
           @ [UserStop, ReadRejected AbortError],
         appliedAt = 20000\<rparr>
        [\<lparr>path = ''/src/App.tsx'', content = ''broken''\<rparr>]
        ''Build Error: Build broke'' ''Build Error:Build broke'' initial_monitor) = Caught
   \<and> failed (handleSandboxError
        \<lparr>stoppedAtStart = False, apiSettings = Resolved True,
         fetchResponse = Resolved (True, True),
         bodyStream =
           [ReadChunk [Data (ProgressEvent (stage_update ''codebase_analysis''
              ''Scanning entire codebase for related issues...'' 40 None))],
            ReadChunk [Data (ProgressEvent (stage_update ''generating_fix''
              ''Implementing fixes across affected files...'' 60 None))]]
           @ [UserStop, ReadRejected AbortError],
         appliedAt = 20000\<rparr>
        [\<lparr>path = ''/src/App.tsx'', content = ''broken''\<rparr>]
        ''Build Error: Build broke'' ''Build Error:Build broke'' initial_monitor)
   \<and> \<not> aborted (handleSandboxError
        \<lparr>stoppedAtStart = False, apiSettings = Resolved True,
         fetchResponse = Resolved (True, True),
         bodyStream =
           [ReadChunk [Data (ProgressEvent (stage_update ''codebase_analysis''
              ''Scanning entire codebase for related issues...'' 40 None))],
            ReadChunk [Data (ProgressEvent (stage_update ''generating_fix''
              ''Implementing fixes across affected files...'' 60 None))]]
           @ [UserStop, ReadRejected AbortError],
         appliedAt = 20000\<rparr>
        [\<lparr>path = ''/src/App.tsx'', content = ''broken''\<rparr>]
        ''Build Error: Build broke'' ''Build Error:Build broke'' initial_monitor)
   \<and> sr_filesFixed (handleSandboxError
        \<lparr>stoppedAtStart = False, apiSettings = Resolved True,
         fetchResponse = Resolved (True, True),
         bodyStream =
           [ReadChunk [Data (ProgressEvent (stage_update ''codebase_analysis''
              ''Scanning entire codebase for related issues...'' 40 None))],
            ReadChunk [Data (ProgressEvent (stage_update ''generating_fix''
              ''Implementing fixes across affected files...'' 60 None))]]
           @ [UserStop, ReadRejected AbortError],
         appliedAt = 20000\<rparr>
        [\<lparr>path = ''/src/App.tsx'', content = ''broken''\<rparr>]
        ''Build Error: Build broke'' ''Build Error:Build broke'' initial_monitor) = None
   \<and> filesAfter [\<lparr>path = ''/src/App.tsx'', content = ''broken''\<rparr>]
        (handleSandboxError
        \<lparr>stoppedAtStart = False, apiSettings = Resolved True,
         fetchResponse = Resolved (True, True),
         bodyStream =
           [ReadChunk [Data (ProgressEvent (stage_update ''codebase_analysis''
              ''Scanning entire codebase for related issues...'' 40 None))],
            ReadChunk [Data (ProgressEvent (stage_update ''generating_fix''
              ''Implementing fixes across affected files...'' 60 None))]]
           @ [UserStop, ReadRejected AbortError],
         appliedAt = 20000\<rparr>
        [\<lparr>path = ''/src/App.tsx'', content = ''broken''\<rparr>]
        ''Build Error: Build broke'' ''Build Error:Build broke'' initial_monitor)
     = [\<lparr>path = ''/src/App.tsx'', content = ''broken''\<rparr>]"
  by (simp add: shown_stage_def aborted_def failed_def filesAfter_def handleSandboxError_def
      read_stream_def caught_def stage_update_def)

text \<open>
  C5 fails on the code. Pressing Stop aborts the request, the pending read rejects, and
  the \<open>catch\<close> block treats the rejection as any other failure: the session that the
  user stopped ends in the failure handler, not aborted, and shows the error toast.
\<close>

theorem stop_reported_as_failure:
  "sr_stopped (handleSandboxError
        \<lparr>stoppedAtStart = False, apiSettings = Resolved True,
         fetchResponse = Resolved (True, True),
         bodyStream =
           [ReadChunk [Data (ProgressEvent (stage_update ''generating_fix''
              ''Implementing fixes across affected files...'' 60 None))],
            UserStop, ReadRejected AbortError],
         appliedAt = 20000\<rparr>
        [\<lparr>path = ''/src/App.tsx'', content = ''broken''\<rparr>]
        ''Build Error: Build broke'' ''Build Error:Build broke'' initial_monitor)
   \<and> sr_end (handleSandboxError
        \<lparr>stoppedAtStart = False, apiSettings = Resolved True,
         fetchResponse = Resolved (True, True),
         bodyStream =
           [ReadChunk [Data (ProgressEvent (stage_update ''generating_fix''
              ''Implementing fixes across affected files...'' 60 None))],
            UserStop, ReadRejected AbortError],
         appliedAt = 20000\<rparr>
        [\<lparr>path = ''/src/App.tsx'', content = ''broken''\<rparr>]
        ''Build Error: Build broke'' ''Build Error:Build broke'' initial_monitor) = Caught
   \<and> failed (handleSandboxError
        \<lparr>stoppedAtStart = False, apiSettings = Resolved True,
         fetchResponse = Resolved (True, True),
         bodyStream =
           [ReadChunk [Data (ProgressEvent (stage_update ''generating_fix''
              ''Implementing fixes across affected files...'' 60 None))],
            UserStop, ReadRejected AbortError],
         appliedAt = 20000\<rparr>
        [\<lparr>path = ''/src/App.tsx'', content = ''broken''\<rparr>]
        ''Build Error: Build broke'' ''Build Error:Build broke'' initial_monitor)
   \<and> \<not> aborted (handleSandboxError
        \<lparr>stoppedAtStart = False, apiSettings = Resolved True,
         fetchResponse = Resolved (True, True),
         bodyStream =
           [ReadChunk [Data (ProgressEvent (stage_update ''generating_fix''
              ''Implementing fixes across affected files...'' 60 None))],
            UserStop, ReadRejected AbortError],
         appliedAt = 20000\<rparr>
        [\<lparr>path = ''/src/App.tsx'', content = ''broken''\<rparr>]
        ''Build Error: Build broke'' ''Build Error:Build broke'' initial_monitor)
   \<and> sr_toasts (handleSandboxError
        \<lparr>stoppedAtStart = False, apiSettings = Resolved True,
         fetchResponse = Resolved (True, True),
         bodyStream =
           [ReadChunk [Data (ProgressEvent (stage_update ''generating_fix''
              ''Implementing fixes across affected files...'' 60 None))],
            UserStop, ReadRejected AbortError],
         appliedAt = 20000\<rparr>
        [\<lparr>path = ''/src/App.tsx'', content = ''broken''\<rparr>]
        ''Build Error: Build broke'' ''Build Error:Build broke'' initial_monitor)
     = [ToastInfo ''AI is analyzing and fixing the error...'',
        ToastError ''Failed to auto-fix the error'']"
  by (simp add: aborted_def failed_def handleSandboxError_def read_stream_def caught_def
      stage_update_def analyzing_toast_def)

section \<open>Merging a fix into the files\<close>

lemma updateFile_path: "path (updateFile fx f) = path f"
  by (simp add: updateFile_def split: option.splits)

lemma updateFile_absent:
  "map_of fx (path f) = None \<Longrightarrow> map_of fx (CHR ''/'' # path f) = None \<Longrightarrow> updateFile fx f = f"
  by (simp add: updateFile_def fixedContent_def)

lemma updateFile_exact:
  "map_of fx (path f) = Some c \<Longrightarrow> c \<noteq> [] \<Longrightarrow> content (updateFile fx f) = c"
  by (simp add: updateFile_def fixedContent_def)

lemma updateFile_slash:
  "map_of fx (path f) = None \<Longrightarrow> map_of fx (CHR ''/'' # path f) = Some c \<Longrightarrow> c \<noteq> [] \<Longrightarrow>
     content (updateFile fx f) = c"
  by (simp add: updateFile_def fixedContent_def)

lemma applyFixedFiles_nth:
  "i < length files \<Longrightarrow> applyFixedFiles files fx ! i = updateFile fx (files ! i)"
  by (simp add: applyFixedFiles_def nth_append)

lemma pathExists_iff:
  "pathExists files p \<longleftrightarrow> (\<exists>f \<in> set files. path f = p \<or> CHR ''/'' # path f = p)"
  by (simp add: pathExists_def list_ex_iff)

text \<open>
  C9 as stated fails: a file whose path is not a key of the patch is overwritten when
  the patch has the path with a leading slash.
\<close>

theorem merge_overwrites_unslashed_path:
  "map_of [(''/src/App.tsx'', ''fixed'')] ''src/App.tsx'' = None
   \<and> applyFixedFiles [\<lparr>path = ''src/App.tsx'', content = ''broken''\<rparr>]
        [(''/src/App.tsx'', ''fixed'')]
      = [\<lparr>path = ''src/App.tsx'', content = ''fixed''\<rparr>]"
  by (simp add: applyFixedFiles_def updateFile_def fixedContent_def pathExists_def)

text \<open>
  C9, amended. The merge keeps every file's position and path. A file keeps its content
  when neither its path nor its path with a leading slash is a key of the patch; it takes
  the non-empty content the patch has under its path, or, when its path is not a key of
  the patch, the non-empty content the patch has under its path with a leading slash
  (a key with empty content is left out of this statement). The entries of the patch
  whose key is
  no file's path, with or without the leading slash, are appended in the patch's order.
\<close>

theorem merge_touches_patched_paths:
  "(\<forall>i < length files.
      path (applyFixedFiles files fx ! i) = path (files ! i)
      \<and> (map_of fx (path (files ! i)) = None \<and> map_of fx (CHR ''/'' # path (files ! i)) = None
           \<longrightarrow> applyFixedFiles files fx ! i = files ! i)
      \<and> (\<forall>c. c \<noteq> [] \<and> map_of fx (path (files ! i)) = Some c
           \<longrightarrow> content (applyFixedFiles files fx ! i) = c)
      \<and> (\<forall>c. c \<noteq> [] \<and> map_of fx (path (files ! i)) = None
             \<and> map_of fx (CHR ''/'' # path (files ! i)) = Some c
           \<longrightarrow> content (applyFixedFiles files fx ! i) = c))
   \<and> drop (length files) (applyFixedFiles files fx) =
       map (\<lambda>(p, c). \<lparr>path = p, content = c\<rparr>)
         (filter (\<lambda>(p, c). \<forall>f \<in> set files. path f \<noteq> p \<and> CHR ''/'' # path f \<noteq> p) fx)"
proof -
  have "filter (\<lambda>(p, c). \<not> pathExists files p) fx
      = filter (\<lambda>(p, c). \<forall>f \<in> set files. path f \<noteq> p \<and> CHR ''/'' # path f \<noteq> p) fx"
    by (rule filter_cong) (auto simp: pathExists_iff)
  then have "drop (length files) (applyFixedFiles files fx) =
       map (\<lambda>(p, c). \<lparr>path = p, content = c\<rparr>)
         (filter (\<lambda>(p, c). \<forall>f \<in> set files. path f \<noteq> p \<and> CHR ''/'' # path f \<noteq> p) fx)"
    by (simp add: applyFixedFiles_def)
  then show ?thesis
    by (simp add: applyFixedFiles_nth updateFile_path updateFile_absent updateFile_exact
        updateFile_slash)
qed

theorem merge_touches_patched_paths_witness:
  "applyFixedFiles
     [\<lparr>path = ''src/App.tsx'', content = ''app''\<rparr>, \<lparr>path = ''/src/main.tsx'', content = ''main''\<rparr>,
      \<lparr>path = ''src/index.css'', content = ''css''\<rparr>]
     [(''/src/App.tsx'', ''app2''), (''/src/util.ts'', ''util'')] ! 1
     = \<lparr>path = ''/src/main.tsx'', content = ''main''\<rparr>
   \<and> content (applyFixedFiles
     [\<lparr>path = ''src/App.tsx'', content = ''app''\<rparr>, \<lparr>path = ''/src/main.tsx'', content = ''main''\<rparr>,
      \<lparr>path = ''src/index.css'', content = ''css''\<rparr>]
     [(''/src/App.tsx'', ''app2''), (''/src/util.ts'', ''util'')] ! 0) = ''app2''
   \<and> drop 3 (applyFixedFiles
     [\<lparr>path = ''src/App.tsx'', content = ''app''\<rparr>, \<lparr>path = ''/src/main.tsx'', content = ''main''\<rparr>,
      \<lparr>path = ''src/index.css'', content = ''css''\<rparr>]
     [(''/src/App.tsx'', ''app2''), (''/src/util.ts'', ''util'')])
     = [\<lparr>path = ''/src/util.ts'', content = ''util''\<rparr>]"
proof -
  let ?F = "[\<lparr>path = ''src/App.tsx'', content = ''app''\<rparr>,
      \<lparr>path = ''/src/main.tsx'', content = ''main''\<rparr>,
      \<lparr>path = ''src/index.css'', content = ''css''\<rparr>]"
  let ?P = "[(''/src/App.tsx'', ''app2''), (''/src/util.ts'', ''util'')]"
  note m = merge_touches_patched_paths [of ?F ?P]
  from m have frame: "map_of ?P (path (?F ! 1)) = None \<and> map_of ?P (CHR ''/'' # path (?F ! 1)) = None
      \<longrightarrow> applyFixedFiles ?F ?P ! 1 = ?F ! 1"
    by (simp del: nth_Cons_numeral)
  from m have upd: "''app2'' \<noteq> [] \<and> map_of ?P (path (?F ! 0)) = None
             \<and> map_of ?P (CHR ''/'' # path (?F ! 0)) = Some ''app2''
           \<longrightarrow> content (applyFixedFiles ?F ?P ! 0) = ''app2''"
    by simp
  from m have new: "drop (length ?F) (applyFixedFiles ?F ?P) =
       map (\<lambda>(p, c). \<lparr>path = p, content = c\<rparr>)
         (filter (\<lambda>(p, c). \<forall>f \<in> set ?F. path f \<noteq> p \<and> CHR ''/'' # path f \<noteq> p) ?P)"
    by blast
  from frame have "applyFixedFiles ?F ?P ! 1 = \<lparr>path = ''/src/main.tsx'', content = ''main''\<rparr>"
    by simp
  moreover from upd have "content (applyFixedFiles ?F ?P ! 0) = ''app2''" by simp
  moreover from new have "drop 3 (applyFixedFiles ?F ?P) = [\<lparr>path = ''/src/util.ts'', content = ''util''\<rparr>]"
    by (simp add: numeral_3_eq_3)
  ultimately show ?thesis by blast
qed

section \<open>The fixer pipeline\<close>

lemma checkEmptyAndTodo_fields:
  "validSyntax (checkEmptyAndTodo v e) = validSyntax v"
  "importsResolved (checkEmptyAndTodo v e) = importsResolved v"
  "filesModified (checkEmptyAndTodo v e) = filesModified v"
  "noEmptyFunctions (checkEmptyAndTodo v e)
     = (noEmptyFunctions v \<and> \<not> has_empty_function (snd e))"
  "noTODOComments (checkEmptyAndTodo v e)
     = (noTODOComments v
        \<and> \<not> includes_str (snd e) ''// TODO'' \<and> \<not> includes_str (snd e) ''// FIXME'')"
  by (simp_all add: checkEmptyAndTodo_def Let_def)

lemma verifyFile_eq:
  "verifyFile v e =
     (checkEmptyAndTodo v e)\<lparr>warnings := warnings (checkEmptyAndTodo v e)
        @ (if includes_str (snd e) ''undefined'' \<and> \<not> includes_str (snd e) ''!== undefined''
           then [fst e @ '': May have undefined references''] else [])\<rparr>"
  by (simp add: verifyFile_def Let_def)

lemma verifyFile_fields:
  "validSyntax (verifyFile v e) = validSyntax v"
  "importsResolved (verifyFile v e) = importsResolved v"
  "filesModified (verifyFile v e) = filesModified v"
  "noEmptyFunctions (verifyFile v e)
     = (noEmptyFunctions v \<and> \<not> has_empty_function (snd e))"
  "noTODOComments (verifyFile v e)
     = (noTODOComments v
        \<and> \<not> includes_str (snd e) ''// TODO'' \<and> \<not> includes_str (snd e) ''// FIXME'')"
  by (simp_all add: verifyFile_eq checkEmptyAndTodo_fields)

lemma foldl_verifyFile_fields:
  "validSyntax (foldl verifyFile v fx) = validSyntax v"
  "importsResolved (foldl verifyFile v fx) = importsResolved v"
  "filesModified (foldl verifyFile v fx) = filesModified v"
  "noEmptyFunctions (foldl verifyFile v fx)
     = (noEmptyFunctions v \<and> list_all (\<lambda>e. \<not> has_empty_function (snd e)) fx)"
  "noTODOComments (foldl verifyFile v fx)
     = (noTODOComments v
        \<and> list_all (\<lambda>e. \<not> includes_str (snd e) ''// TODO''
                       \<and> \<not> includes_str (snd e) ''// FIXME'') fx)"
  by (induction fx arbitrary: v) (auto simp: verifyFile_fields)

lemma reasonAboutErrorFix_calls: "snd (reasonAboutErrorFix pa llm n err) = Suc n"
  by (simp add: reasonAboutErrorFix_def split: llm_reply.splits sum.splits)

lemma fixWithReasoning_result:
  "fx_result (fixWithReasoning pa pf llm err) =
     (case llm (Suc 0) of
        StreamFails msg \<Rightarrow>
          FixFailed msg (Some (fst (reasonAboutErrorFix pa llm 0 err)))
      | StreamText response \<Rightarrow>
          FixSucceeded (parseFixedFiles pf response) (extractExplanation pf response)
            (fst (reasonAboutErrorFix pa llm 0 err))
            (verifyFixes (parseFixedFiles pf response) err))"
  using reasonAboutErrorFix_calls [of pa llm 0 err]
  by (cases "reasonAboutErrorFix pa llm 0 err")
     (simp add: fixWithReasoning_def Let_def split: llm_reply.splits)

lemma fixWithReasoning_updates:
  "fx_updates (fixWithReasoning pa pf llm err) =
     [stage_update ''analyzing'' ''Analyzing error and codebase context...'' 10 None,
      stage_update ''reasoning_complete'' ''Root cause identified'' 30
        (Some (fst (reasonAboutErrorFix pa llm 0 err))),
      stage_update ''codebase_analysis''
        ''Scanning entire codebase for related issues...'' 40 None,
      stage_update ''generating_fix''
        ''Implementing fixes across affected files...'' 60 None]
     @ (case llm (Suc 0) of
          StreamFails msg \<Rightarrow> [stage_update ''error'' (''Fix failed: '' @ msg) 0 None]
        | StreamText response \<Rightarrow>
            [stage_update ''verifying'' ''Verifying fixes...'' 80 None,
             stage_update ''complete'' ''Fix complete and verified'' 100 None])"
  using reasonAboutErrorFix_calls [of pa llm 0 err]
  by (cases "reasonAboutErrorFix pa llm 0 err")
     (simp add: fixWithReasoning_def Let_def split: llm_reply.splits)

lemma fixWithReasoning_calls: "fx_calls (fixWithReasoning pa pf llm err) = 2"
  using reasonAboutErrorFix_calls [of pa llm 0 err]
  by (cases "reasonAboutErrorFix pa llm 0 err")
     (simp add: fixWithReasoning_def Let_def split: llm_reply.splits)

text \<open>
  C10. In every report of \<open>verifyFixes\<close> the checks \<open>validSyntax\<close> and
  \<open>importsResolved\<close> are true; the other two checks depend only on the empty-function
  and the TODO tests; the test for \<open>undefined\<close> adds one warning to what the first two
  tests of the entry produced and changes nothing else. \<open>verifyFixes\<close> reads the patch
  and returns the report only: the patch a successful run returns is the patch the report
  was computed from.
\<close>

theorem verifyFixes_report:
  "validSyntax (verifyFixes fx err) \<and> importsResolved (verifyFixes fx err)
   \<and> filesModified (verifyFixes fx err) = length fx
   \<and> noEmptyFunctions (verifyFixes fx err)
       = list_all (\<lambda>e. \<not> has_empty_function (snd e)) fx
   \<and> noTODOComments (verifyFixes fx err)
       = list_all (\<lambda>e. \<not> includes_str (snd e) ''// TODO''
                      \<and> \<not> includes_str (snd e) ''// FIXME'') fx
   \<and> verifyFile v e =
       (checkEmptyAndTodo v e)\<lparr>warnings := warnings (checkEmptyAndTodo v e)
          @ (if includes_str (snd e) ''undefined'' \<and> \<not> includes_str (snd e) ''!== undefined''
             then [fst e @ '': May have undefined references''] else [])\<rparr>
   \<and> (case fx_result (fixWithReasoning pa pf llm err) of
         FixSucceeded files explanation reasoning report \<Rightarrow> report = verifyFixes files err
       | FixFailed msg reasoning \<Rightarrow> True)"
  by (simp add: verifyFixes_def foldl_verifyFile_fields verifyFile_eq fixWithReasoning_result
      split: llm_reply.splits)

theorem verifyFixes_report_witness:
  "validSyntax (verifyFixes
      [(''/src/a.ts'', ''function f() { }''), (''/src/b.ts'', ''let x = undefined'')]
      ''Build Error: Build broke'')
   \<and> importsResolved (verifyFixes
      [(''/src/a.ts'', ''function f() { }''), (''/src/b.ts'', ''let x = undefined'')]
      ''Build Error: Build broke'')
   \<and> \<not> noEmptyFunctions (verifyFixes
      [(''/src/a.ts'', ''function f() { }''), (''/src/b.ts'', ''let x = undefined'')]
      ''Build Error: Build broke'')
   \<and> noTODOComments (verifyFixes
      [(''/src/a.ts'', ''function f() { }''), (''/src/b.ts'', ''let x = undefined'')]
      ''Build Error: Build broke'')
   \<and> warnings (verifyFixes
      [(''/src/a.ts'', ''function f() { }''), (''/src/b.ts'', ''let x = undefined'')]
      ''Build Error: Build broke'')
     = [''/src/a.ts: Contains empty function'', ''/src/b.ts: May have undefined references'']"
proof -
  let ?fx = "[(''/src/a.ts'', ''function f() { }''), (''/src/b.ts'', ''let x = undefined'')]"
  have e1: "has_empty_function ''function f() { }''"
    by (simp add: empty_function_at_def is_space_def is_word_def)
  have e2: "\<not> has_empty_function ''let x = undefined''"
    by (simp add: empty_function_at_def)
  have w: "warnings (verifyFixes ?fx ''Build Error: Build broke'')
     = [''/src/a.ts: Contains empty function'', ''/src/b.ts: May have undefined references'']"
    using e1 e2
    by (simp add: verifyFixes_def verifyFile_def checkEmptyAndTodo_def Let_def)
  from verifyFixes_report [of ?fx "''Build Error: Build broke''"] e1 e2 w
  show ?thesis by simp
qed

text \<open>
  C2 as stated fails: when the reasoning call fails, \<open>reasonAboutErrorFix\<close> returns its
  fallback record and the run goes on through every stage. Here the first call throws and
  the second returns one file block; the run succeeds with that file.
\<close>

theorem analysis_failure_not_failed:
  "fx_result (fixWithReasoning (\<lambda>js. Inl ''Unexpected token'')
        (\<lambda>js. Inl ''Unexpected token'')
        (\<lambda>n. if n = 0 then StreamFails ''fetch failed'' else StreamText (''=== /src/App.tsx ==='' @ [newline] @ ''export default 1''))
        ''Build Error: Build broke'')
     = FixSucceeded [(''/src/App.tsx'', ''export default 1'')]
         ''Applied fixes based on deep reasoning and codebase analysis''
         (fallback_analysis ''Build Error: Build broke'' ''fetch failed'')
         \<lparr>filesModified = 1, noEmptyFunctions = True, noTODOComments = True,
          validSyntax = True, importsResolved = True, warnings = []\<rparr>
   \<and> map stage (fx_updates (fixWithReasoning (\<lambda>js. Inl ''Unexpected token'')
        (\<lambda>js. Inl ''Unexpected token'')
        (\<lambda>n. if n = 0 then StreamFails ''fetch failed'' else StreamText (''=== /src/App.tsx ==='' @ [newline] @ ''export default 1''))
        ''Build Error: Build broke''))
     = [''analyzing'', ''reasoning_complete'', ''codebase_analysis'', ''generating_fix'',
        ''verifying'', ''complete'']"
proof -
  let ?response = "''=== /src/App.tsx ==='' @ [newline] @ ''export default 1''"
  have fb: "fileBlocks ?response = [(''/src/App.tsx'', ''export default 1'')]"
    by (simp add: fileBlocks_def block_at_def newline_def is_space_def trim_def)
  have pf: "parseFixedFiles (\<lambda>js. Inl ''Unexpected token'') ?response = [(''/src/App.tsx'', ''export default 1'')]"
    using fb by (simp add: parseFixedFiles_def json_files_def brace_span_def newline_def)
  have ex: "extractExplanation (\<lambda>js. Inl ''Unexpected token'') ?response
      = ''Applied fixes based on deep reasoning and codebase analysis''"
    by (simp add: extractExplanation_def brace_span_def newline_def)
  have vf: "verifyFixes [(''/src/App.tsx'', ''export default 1'')] ''Build Error: Build broke''
      = \<lparr>filesModified = 1, noEmptyFunctions = True, noTODOComments = True,
          validSyntax = True, importsResolved = True, warnings = []\<rparr>"
    by (simp add: verifyFixes_def verifyFile_def checkEmptyAndTodo_def Let_def
        empty_function_at_def)
  have ra: "reasonAboutErrorFix (\<lambda>js. Inl ''Unexpected token'') (\<lambda>n. if n = 0 then StreamFails ''fetch failed'' else StreamText (''=== /src/App.tsx ==='' @ [newline] @ ''export default 1'')) 0 ''Build Error: Build broke''
      = (fallback_analysis ''Build Error: Build broke'' ''fetch failed'', 1)"
    by (simp add: reasonAboutErrorFix_def)
  show ?thesis
    using pf ex vf ra
    by (simp add: fixWithReasoning_result fixWithReasoning_updates stage_update_def)
qed

text \<open>
  C2, amended. When the call of the analysis stage fails (the stream throws, or the
  text has no JSON object, or \<open>JSON.parse\<close> throws), \<open>reasonAboutErrorFix\<close> returns the
  fallback analysis with the error message in its \<open>error\<close> field, after one call of the
  oracle; the run reports "reasoning_complete" with that analysis and goes on to
  "generating_fix"; it makes two calls in all, and its result carries the fallback
  analysis.
\<close>

theorem analysis_failure_falls_back:
  assumes "llm 0 = StreamFails msg
    \<or> (\<exists>text. llm 0 = StreamText text \<and> parseReasoningResponse pa text = Inl msg)"
  shows "reasonAboutErrorFix pa llm 0 err = (fallback_analysis err msg, 1)
    \<and> an_error (fallback_analysis err msg) = Some msg
    \<and> take 4 (fx_updates (fixWithReasoning pa pf llm err)) =
        [stage_update ''analyzing'' ''Analyzing error and codebase context...'' 10 None,
         stage_update ''reasoning_complete'' ''Root cause identified'' 30
           (Some (fallback_analysis err msg)),
         stage_update ''codebase_analysis''
           ''Scanning entire codebase for related issues...'' 40 None,
         stage_update ''generating_fix''
           ''Implementing fixes across affected files...'' 60 None]
    \<and> fx_calls (fixWithReasoning pa pf llm err) = 2
    \<and> (case fx_result (fixWithReasoning pa pf llm err) of
          FixSucceeded files explanation reasoning report \<Rightarrow>
            reasoning = fallback_analysis err msg
        | FixFailed m reasoning \<Rightarrow> reasoning = Some (fallback_analysis err msg))"
proof -
  from assms have r: "reasonAboutErrorFix pa llm 0 err = (fallback_analysis err msg, 1)"
    by (auto simp: reasonAboutErrorFix_def)
  then show ?thesis
    by (simp add: fixWithReasoning_updates fixWithReasoning_calls fixWithReasoning_result
        fallback_analysis_def split: llm_reply.splits)
qed

theorem analysis_failure_falls_back_witness:
  "reasonAboutErrorFix (\<lambda>js. Inl ''Unexpected token'') (\<lambda>n. StreamText ''The build is broken.'') 0
       ''Build Error: Build broke''
     = (fallback_analysis ''Build Error: Build broke'' ''No valid JSON in reasoning output'', 1)
   \<and> fx_calls (fixWithReasoning (\<lambda>js. Inl ''Unexpected token'') (\<lambda>js. Inl ''Unexpected token'')
        (\<lambda>n. StreamText ''The build is broken.'') ''Build Error: Build broke'') = 2"
proof -
  let ?pa = "(\<lambda>js. Inl ''Unexpected token'')"
  let ?llm = "\<lambda>n::nat. StreamText ''The build is broken.''"
  have "parseReasoningResponse ?pa ''The build is broken.''
      = Inl ''No valid JSON in reasoning output''"
    by (simp add: parseReasoningResponse_def brace_span_def trim_def is_space_def
        strip_json_fence_def strip_open_fence_def strip_close_fence_def fence_def)
  then have a: "?llm 0 = StreamFails ''No valid JSON in reasoning output''
    \<or> (\<exists>text. ?llm 0 = StreamText text
          \<and> parseReasoningResponse ?pa text = Inl ''No valid JSON in reasoning output'')"
    by simp
  from analysis_failure_falls_back [OF a, of "''Build Error: Build broke''" ?pa]
  show ?thesis by simp
qed

lemma one_per_read_append: "one_per_read (xs @ ys) = one_per_read xs @ one_per_read ys"
  by (simp add: one_per_read_def)

lemma await_read_updates:
  "\<not> stopped st \<Longrightarrow>
     await_read (one_per_read (map ProgressEvent ups) @ rest) st
       = await_read rest (st\<lparr>updates := updates st @ ups\<rparr>)"
  by (induction ups arbitrary: st) (simp_all add: one_per_read_def)

lemma applyFixedFiles_empty: "applyFixedFiles files [] = files"
  by (simp add: applyFixedFiles_def updateFile_def fixedContent_def map_idI)

lemma handle_complete_stream:
  assumes "apiSettings env = Resolved True"
    and "fetchResponse env = Resolved (True, True)"
    and "stoppedAtStart env = False"
    and "bodyStream env = one_per_read (map ProgressEvent ups @ [CompleteEvent
           \<lparr>fr_success = True, fr_fixedFiles = Some fixedFiles, fr_explanation = ex\<rparr>])"
  shows "sr_end (handleSandboxError env files e h s) = Applied"
    and "sr_filesFixed (handleSandboxError env files e h s)
           = Some (applyFixedFiles files fixedFiles)"
    and "sr_updates (handleSandboxError env files e h s) = ups"
    and "sr_toasts (handleSandboxError env files e h s)
           = [analyzing_toast, ToastSuccess (if ex \<noteq> [] then ex else ''Error fixed!'')]"
proof -
  let ?st0 = "\<lparr>stopped = False, finalResult = None, updates = []\<rparr>"
  let ?fr = "\<lparr>fr_success = True, fr_fixedFiles = Some fixedFiles, fr_explanation = ex\<rparr>"
  have "await_read (bodyStream env) ?st0
      = await_read (one_per_read [CompleteEvent ?fr]) (?st0\<lparr>updates := updates ?st0 @ ups\<rparr>)"
    unfolding assms(4) one_per_read_append by (rule await_read_updates) simp
  then have rd: "read_stream (bodyStream env) ?st0
      = Inr \<lparr>stopped = False, finalResult = Some ?fr, updates = ups\<rparr>"
    by (simp add: read_stream_def one_per_read_def)
  show "sr_end (handleSandboxError env files e h s) = Applied"
    and "sr_filesFixed (handleSandboxError env files e h s)
           = Some (applyFixedFiles files fixedFiles)"
    and "sr_updates (handleSandboxError env files e h s) = ups"
    and "sr_toasts (handleSandboxError env files e h s)
           = [analyzing_toast, ToastSuccess (if ex \<noteq> [] then ex else ''Error fixed!'')]"
    using assms(1-3) rd by (simp_all add: handleSandboxError_def)
qed

lemma fixWithReasoning_success_events:
  assumes "llm (Suc 0) = StreamText response"
  shows "route_events (fixWithReasoning pa pf llm err)
     = map ProgressEvent (fx_updates (fixWithReasoning pa pf llm err))
       @ [CompleteEvent \<lparr>fr_success = True,
            fr_fixedFiles = Some (parseFixedFiles pf response),
            fr_explanation = extractExplanation pf response\<rparr>]"
  using assms by (simp add: route_events_def fixWithReasoning_result)

lemma plain_text_no_blocks: "fileBlocks ''I could not determine a fix.'' = []"
  by (simp add: fileBlocks_def block_at_def)

lemma plain_text_no_json: "json_files pf ''I could not determine a fix.'' = None"
  by (simp add: json_files_def brace_span_def)

text \<open>
  C1 as stated fails: a response of plain text, with no brace and no \<open>===\<close>, parses to
  the empty patch, the run succeeds, and the session of the preview applies the result
  and shows the success toast.
\<close>

theorem unparsable_fix_not_failed:
  "brace_span ''I could not determine a fix.'' = None
   \<and> fileBlocks ''I could not determine a fix.'' = []
   \<and> sr_end (handleSandboxError \<lparr>stoppedAtStart = False, apiSettings = Resolved True,
        fetchResponse = Resolved (True, True),
        bodyStream = one_per_read (route_events (fixWithReasoning (\<lambda>js. Inr \<lparr>an_errorMessage = ''Build broke'', an_errorType = ''build'',
          an_fundamentalIssue = ''Missing import'', an_symptom = [],
          an_selected = ''properFix'', an_strategyReasoning = [],
          an_confidenceReasoning = [], an_error = None\<rparr>)
        (\<lambda>js. Inl ''Unexpected token'')
        (\<lambda>n. if n = 0 then StreamText ''{}'' else StreamText ''I could not determine a fix.'')
        ''Build Error: Build broke'')),
        appliedAt = 20000\<rparr>
      [\<lparr>path = ''/src/App.tsx'', content = ''broken''\<rparr>]
      ''Build Error: Build broke'' ''Build Error:Build broke'' initial_monitor) = Applied
   \<and> \<not> failed (handleSandboxError \<lparr>stoppedAtStart = False, apiSettings = Resolved True,
        fetchResponse = Resolved (True, True),
        bodyStream = one_per_read (route_events (fixWithReasoning (\<lambda>js. Inr \<lparr>an_errorMessage = ''Build broke'', an_errorType = ''build'',
          an_fundamentalIssue = ''Missing import'', an_symptom = [],
          an_selected = ''properFix'', an_strategyReasoning = [],
          an_confidenceReasoning = [], an_error = None\<rparr>)
        (\<lambda>js. Inl ''Unexpected token'')
        (\<lambda>n. if n = 0 then StreamText ''{}'' else StreamText ''I could not determine a fix.'')
        ''Build Error: Build broke'')),
        appliedAt = 20000\<rparr>
      [\<lparr>path = ''/src/App.tsx'', content = ''broken''\<rparr>]
      ''Build Error: Build broke'' ''Build Error:Build broke'' initial_monitor)
   \<and> sr_toasts (handleSandboxError \<lparr>stoppedAtStart = False, apiSettings = Resolved True,
        fetchResponse = Resolved (True, True),
        bodyStream = one_per_read (route_events (fixWithReasoning (\<lambda>js. Inr \<lparr>an_errorMessage = ''Build broke'', an_errorType = ''build'',
          an_fundamentalIssue = ''Missing import'', an_symptom = [],
          an_selected = ''properFix'', an_strategyReasoning = [],
          an_confidenceReasoning = [], an_error = None\<rparr>)
        (\<lambda>js. Inl ''Unexpected token'')
        (\<lambda>n. if n = 0 then StreamText ''{}'' else StreamText ''I could not determine a fix.'')
        ''Build Error: Build broke'')),
        appliedAt = 20000\<rparr>
      [\<lparr>path = ''/src/App.tsx'', content = ''broken''\<rparr>]
      ''Build Error: Build broke'' ''Build Error:Build broke'' initial_monitor)
      = [ToastInfo ''AI is analyzing and fixing the error...'',
         ToastSuccess ''Applied fixes based on deep reasoning and codebase analysis'']"
proof -
  let ?pa = "(\<lambda>js. Inr \<lparr>an_errorMessage = ''Build broke'', an_errorType = ''build'',
          an_fundamentalIssue = ''Missing import'', an_symptom = [],
          an_selected = ''properFix'', an_strategyReasoning = [],
          an_confidenceReasoning = [], an_error = None\<rparr>)"
  let ?pf = "(\<lambda>js. Inl ''Unexpected token'')"
  let ?llm = "(\<lambda>n. if n = 0 then StreamText ''{}'' else StreamText ''I could not determine a fix.'')"
  let ?env = "\<lparr>stoppedAtStart = False, apiSettings = Resolved True,
        fetchResponse = Resolved (True, True),
        bodyStream = one_per_read (route_events (fixWithReasoning (\<lambda>js. Inr \<lparr>an_errorMessage = ''Build broke'', an_errorType = ''build'',
          an_fundamentalIssue = ''Missing import'', an_symptom = [],
          an_selected = ''properFix'', an_strategyReasoning = [],
          an_confidenceReasoning = [], an_error = None\<rparr>)
        (\<lambda>js. Inl ''Unexpected token'')
        (\<lambda>n. if n = 0 then StreamText ''{}'' else StreamText ''I could not determine a fix.'')
        ''Build Error: Build broke'')),
        appliedAt = 20000\<rparr>"
  let ?ex = "''Applied fixes based on deep reasoning and codebase analysis''"
  have c: "?llm (Suc 0) = StreamText ''I could not determine a fix.''" by simp
  have p: "parseFixedFiles ?pf ''I could not determine a fix.'' = []"
    by (simp add: parseFixedFiles_def plain_text_no_json plain_text_no_blocks)
  have x: "extractExplanation ?pf ''I could not determine a fix.'' = ?ex"
    by (simp add: extractExplanation_def brace_span_def)
  have d: "apiSettings ?env = Resolved True" by simp
  have e: "fetchResponse ?env = Resolved (True, True)" by simp
  have f: "stoppedAtStart ?env = False" by simp
  have g: "bodyStream ?env = one_per_read
      (map ProgressEvent (fx_updates (fixWithReasoning ?pa ?pf ?llm ''Build Error: Build broke''))
       @ [CompleteEvent \<lparr>fr_success = True, fr_fixedFiles = Some [], fr_explanation = ?ex\<rparr>])"
    using fixWithReasoning_success_events [of ?llm "''I could not determine a fix.''" ?pa ?pf
        "''Build Error: Build broke''"] c p x
    by simp
  note hc = handle_complete_stream [OF d e f g]
  have "brace_span ''I could not determine a fix.'' = None"
    by (simp add: brace_span_def)
  with hc(1) hc(4) plain_text_no_blocks show ?thesis
    by (simp add: failed_def analyzing_toast_def)
qed

text \<open>
  C1, amended. When the response of the implementation stage has no JSON object with a
  \<open>files\<close> field and the fallback scan finds no file block, the run succeeds with the
  empty patch, and a session that receives the records of the route one per read ends
  complete, not failed: \<open>onFilesFixed\<close> receives the files unchanged, the project's
  files are the files from before, and the success toast is shown.
\<close>

theorem unparsable_fix_completes_empty:
  assumes "json_files pf response = None"
    and "fileBlocks response = []"
    and "llm (Suc 0) = StreamText response"
    and "apiSettings env = Resolved True"
    and "fetchResponse env = Resolved (True, True)"
    and "stoppedAtStart env = False"
    and "bodyStream env = one_per_read (route_events (fixWithReasoning pa pf llm err))"
  shows "fx_result (fixWithReasoning pa pf llm err)
      = FixSucceeded [] (extractExplanation pf response)
          (fst (reasonAboutErrorFix pa llm 0 err)) (verifyFixes [] err)
    \<and> completed (handleSandboxError env files e h s)
    \<and> \<not> failed (handleSandboxError env files e h s)
    \<and> sr_filesFixed (handleSandboxError env files e h s) = Some files
    \<and> filesAfter files (handleSandboxError env files e h s) = files
    \<and> sr_toasts (handleSandboxError env files e h s)
        = [analyzing_toast,
           ToastSuccess (if extractExplanation pf response \<noteq> []
             then extractExplanation pf response else ''Error fixed!'')]"
proof -
  have parse: "parseFixedFiles pf response = []"
    using assms(1,2) by (simp add: parseFixedFiles_def)
  have res: "fx_result (fixWithReasoning pa pf llm err)
      = FixSucceeded [] (extractExplanation pf response)
          (fst (reasonAboutErrorFix pa llm 0 err)) (verifyFixes [] err)"
    using assms(3) parse by (simp add: fixWithReasoning_result)
  have body: "bodyStream env = one_per_read
      (map ProgressEvent (fx_updates (fixWithReasoning pa pf llm err))
       @ [CompleteEvent \<lparr>fr_success = True, fr_fixedFiles = Some [],
            fr_explanation = extractExplanation pf response\<rparr>])"
    using assms(7) fixWithReasoning_success_events [of llm response pa pf err] assms(3) parse
    by simp
  note hc = handle_complete_stream [OF assms(4-6) body, of files e h s]
  from hc(1,2,4) res show ?thesis
    by (simp add: completed_def failed_def filesAfter_def applyFixedFiles_empty)
qed

theorem unparsable_fix_completes_empty_witness:
  "json_files (\<lambda>js. Inl ''Unexpected token'') ''I could not determine a fix.'' = None
   \<and> fileBlocks ''I could not determine a fix.'' = []
   \<and> completed (handleSandboxError \<lparr>stoppedAtStart = False, apiSettings = Resolved True,
        fetchResponse = Resolved (True, True),
        bodyStream = one_per_read (route_events (fixWithReasoning (\<lambda>js. Inr \<lparr>an_errorMessage = ''Build broke'', an_errorType = ''build'',
          an_fundamentalIssue = ''Missing import'', an_symptom = [],
          an_selected = ''properFix'', an_strategyReasoning = [],
          an_confidenceReasoning = [], an_error = None\<rparr>)
        (\<lambda>js. Inl ''Unexpected token'')
        (\<lambda>n. if n = 0 then StreamText ''{}'' else StreamText ''I could not determine a fix.'')
        ''Build Error: Build broke'')),
        appliedAt = 20000\<rparr>
      [\<lparr>path = ''/src/App.tsx'', content = ''broken''\<rparr>]
      ''Build Error: Build broke'' ''Build Error:Build broke'' initial_monitor)
   \<and> filesAfter [\<lparr>path = ''/src/App.tsx'', content = ''broken''\<rparr>] (handleSandboxError \<lparr>stoppedAtStart = False, apiSettings = Resolved True,
        fetchResponse = Resolved (True, True),
        bodyStream = one_per_read (route_events (fixWithReasoning (\<lambda>js. Inr \<lparr>an_errorMessage = ''Build broke'', an_errorType = ''build'',
          an_fundamentalIssue = ''Missing import'', an_symptom = [],
          an_selected = ''properFix'', an_strategyReasoning = [],
          an_confidenceReasoning = [], an_error = None\<rparr>)
        (\<lambda>js. Inl ''Unexpected token'')
        (\<lambda>n. if n = 0 then StreamText ''{}'' else StreamText ''I could not determine a fix.'')
        ''Build Error: Build broke'')),
        appliedAt = 20000\<rparr>
      [\<lparr>path = ''/src/App.tsx'', content = ''broken''\<rparr>]
      ''Build Error: Build broke'' ''Build Error:Build broke'' initial_monitor)
      = [\<lparr>path = ''/src/App.tsx'', content = ''broken''\<rparr>]"
proof -
  let ?pa = "(\<lambda>js. Inr \<lparr>an_errorMessage = ''Build broke'', an_errorType = ''build'',
          an_fundamentalIssue = ''Missing import'', an_symptom = [],
          an_selected = ''properFix'', an_strategyReasoning = [],
          an_confidenceReasoning = [], an_error = None\<rparr>)"
  let ?pf = "(\<lambda>js. Inl ''Unexpected token'')"
  let ?llm = "(\<lambda>n. if n = 0 then StreamText ''{}'' else StreamText ''I could not determine a fix.'')"
  let ?env = "\<lparr>stoppedAtStart = False, apiSettings = Resolved True,
        fetchResponse = Resolved (True, True),
        bodyStream = one_per_read (route_events (fixWithReasoning (\<lambda>js. Inr \<lparr>an_errorMessage = ''Build broke'', an_errorType = ''build'',
          an_fundamentalIssue = ''Missing import'', an_symptom = [],
          an_selected = ''properFix'', an_strategyReasoning = [],
          an_confidenceReasoning = [], an_error = None\<rparr>)
        (\<lambda>js. Inl ''Unexpected token'')
        (\<lambda>n. if n = 0 then StreamText ''{}'' else StreamText ''I could not determine a fix.'')
        ''Build Error: Build broke'')),
        appliedAt = 20000\<rparr>"
  have a: "json_files ?pf ''I could not determine a fix.'' = None"
    by (rule plain_text_no_json)
  have b: "fileBlocks ''I could not determine a fix.'' = []"
    by (rule plain_text_no_blocks)
  have c: "?llm (Suc 0) = StreamText ''I could not determine a fix.''" by simp
  have d: "apiSettings ?env = Resolved True" by simp
  have e: "fetchResponse ?env = Resolved (True, True)" by simp
  have f: "stoppedAtStart ?env = False" by simp
  have g: "bodyStream ?env = one_per_read (route_events
      (fixWithReasoning ?pa ?pf ?llm ''Build Error: Build broke''))" by simp
  from unparsable_fix_completes_empty [OF a b c d e f g] a b show ?thesis by simp
qed

end
